theory Spec2Isabelle
  imports Complex_Main
begin

section \<open>The record store as the scripts use it\<close>

text \<open>
  The three scripts of the repository (\<^verbatim>\<open>helpsheet.py\<close>, \<^verbatim>\<open>main.py\<close>,
  \<^verbatim>\<open>testtable.py\<close>) are sequences of calls into Python's \<^verbatim>\<open>sqlite3\<close>
  module. This theory models those calls: the statements that occur in the scripts, the
  connection with its implicit transactions, and the script blocks themselves.
\<close>

subsection \<open>REAL values\<close>

text \<open>
  A \<^verbatim>\<open>REAL\<close> column holds an IEEE binary64 number. A finite one is given by
  its rational value (the two zeros are identified); a NaN is stored as NULL by SQLite and
  so is not a value of the type. \<open>round64\<close> is rounding to the nearest binary64
  number, ties to even, with gradual underflow and overflow to infinity (the rounded
  magnitude \<open>m * 2 ^ e\<close> reaches \<open>2 ^ 1024\<close> exactly when \<open>m\<close> has more than
  \<open>1024 - e\<close> bits).
\<close>

datatype real64 = Finite rat | PlusInf | MinusInf

function bitlen :: "int \<Rightarrow> int" where
  "bitlen n = (if n \<le> 0 then 0 else 1 + bitlen (n div 2))"
  by pat_completeness auto
termination
  by (relation "measure nat") auto

declare bitlen.simps [simp del]

definition pow2 :: "int \<Rightarrow> rat" where
  "pow2 e = (if 0 \<le> e then 2 ^ nat e else 1 / 2 ^ nat (- e))"

definition ilog2 :: "rat \<Rightarrow> int" where
  \<comment> \<open>for \<open>0 < a\<close>: the integer \<open>k\<close> with \<open>2 ^ k \<le> a < 2 ^ (k + 1)\<close>\<close>
  "ilog2 a = (case quotient_of a of (n, d) \<Rightarrow>
     (let k = bitlen n - bitlen d
      in if pow2 k \<le> a then k else k - 1))"

definition round_half_even :: "rat \<Rightarrow> int" where
  "round_half_even q = (let f = \<lfloor>q\<rfloor>; r = q - of_int f
     in if r < 1 / 2 then f else if 1 / 2 < r then f + 1
        else if even f then f else f + 1)"

definition round64 :: "rat \<Rightarrow> real64" where
  "round64 q = (if q = 0 then Finite 0 else
     (let a = \<bar>q\<bar>;
          e = max (ilog2 a - 52) (- 1074);
          m = round_half_even (a / pow2 e);
          v = of_int m * pow2 e
      in if 1024 < bitlen m + e then (if 0 < q then PlusInf else MinusInf)
         else Finite (if 0 < q then v else - v)))"

text \<open>A decimal literal of the script (\<^verbatim>\<open>3.8\<close>, \<^verbatim>\<open>0.2\<close>) denotes the nearest
  binary64 number.\<close>

definition lit :: "rat \<Rightarrow> real64" where
  "lit q = round64 q"

text \<open>Addition and subtraction of REAL values; \<open>None\<close> is the NULL that SQLite
  returns where the IEEE result is a NaN.\<close>

fun real_add :: "real64 \<Rightarrow> real64 \<Rightarrow> real64 option" where
  "real_add (Finite a) (Finite b) = Some (round64 (a + b))"
| "real_add PlusInf MinusInf = None"
| "real_add MinusInf PlusInf = None"
| "real_add PlusInf _ = Some PlusInf"
| "real_add MinusInf _ = Some MinusInf"
| "real_add _ PlusInf = Some PlusInf"
| "real_add _ MinusInf = Some MinusInf"

fun real_neg :: "real64 \<Rightarrow> real64" where
  "real_neg (Finite a) = Finite (- a)"
| "real_neg PlusInf = MinusInf"
| "real_neg MinusInf = PlusInf"

definition real_sub :: "real64 \<Rightarrow> real64 \<Rightarrow> real64 option" where
  "real_sub x y = real_add x (real_neg y)"

fun real_less :: "real64 \<Rightarrow> real64 \<Rightarrow> bool" where
  "real_less (Finite a) (Finite b) = (a < b)"
| "real_less MinusInf MinusInf = False"
| "real_less MinusInf _ = True"
| "real_less _ MinusInf = False"
| "real_less PlusInf _ = False"
| "real_less _ PlusInf = True"

subsection \<open>Rows, schema and database contents\<close>

text \<open>
  A row of \<^verbatim>\<open>students\<close> as \<^verbatim>\<open>helpsheet.py\<close> creates the table:
  \<^verbatim>\<open>id INTEGER PRIMARY KEY AUTOINCREMENT, name TEXT NOT NULL, email TEXT UNIQUE,
  age INTEGER, gpa REAL, enrolled INTEGER DEFAULT 1\<close>. A column that may be NULL is an
  option. The field \<open>rowid\<close> is the column \<^verbatim>\<open>id\<close>.
\<close>

record student =
  rowid :: int
  name :: string
  email :: "string option"
  age :: "int option"
  gpa :: "real64 option"
  enrolled :: "int option"

text \<open>The body of a CREATE TABLE statement is a list of column definitions and table
  constraints, in the order in which the script writes them.\<close>

datatype item = Column string string | TableConstraint string

text \<open>
  The contents of a database file: the tables of \<^verbatim>\<open>sqlite_master\<close> with their
  definitions, the rows of \<^verbatim>\<open>students\<close> in rowid order, and the entry of
  \<^verbatim>\<open>students\<close> in \<^verbatim>\<open>sqlite_sequence\<close> (the largest id AUTOINCREMENT has
  handed out).
\<close>

record database =
  catalog :: "(string \<times> item list) list"
  students_rows :: "student list"
  students_seq :: int

definition table_exists :: "string \<Rightarrow> database \<Rightarrow> bool" where
  "table_exists n d = (n \<in> set (map fst (catalog d)))"

definition empty_database :: database where
  "empty_database = \<lparr>catalog = [], students_rows = [], students_seq = 0\<rparr>"

subsection \<open>Errors\<close>

text \<open>\<^verbatim>\<open>sqlite3.Error\<close> and the subclasses the store raises, and the one exception
  of the binding that is not a \<^verbatim>\<open>sqlite3.Error\<close>.\<close>

datatype sqlite_error = OperationalError string | IntegrityError string | DatabaseError string

datatype exn = Sqlite3Error sqlite_error | OverflowError string

subsection \<open>Bound parameters\<close>

text \<open>
  The values the script binds to the placeholders of its INSERT statements are Python
  values of four types: a \<^verbatim>\<open>str\<close> for the name, a \<^verbatim>\<open>str\<close> or
  \<^verbatim>\<open>None\<close> for the email, an \<^verbatim>\<open>int\<close> or \<^verbatim>\<open>None\<close> for the
  age, a \<^verbatim>\<open>float\<close> or \<^verbatim>\<open>None\<close> for the gpa. The model binds values of
  these types and no others. A Python float is a binary64 number or a NaN; SQLite stores a
  NaN as NULL, and \<open>bind_float\<close> is that conversion. What a SELECT hands back for a
  REAL cell is the float of its number, and \<^verbatim>\<open>None\<close> for NULL.

  A value of another type is outside the model: SQLite converts it by the affinity of the
  column (the text \<^verbatim>\<open>'21'\<close> bound for the age is stored as the integer 21, the
  integer 123 bound for the name as the text \<^verbatim>\<open>'123'\<close>, the text
  \<^verbatim>\<open>'3.8'\<close> bound for the gpa as the number 3.8) or keeps it in its own storage
  class, which the typed row below cannot hold.
\<close>

datatype pyfloat = Float real64 | NaN

fun bind_float :: "pyfloat option \<Rightarrow> real64 option" where
  "bind_float None = None"
| "bind_float (Some NaN) = None"
| "bind_float (Some (Float x)) = Some x"

definition fetch_float :: "real64 option \<Rightarrow> pyfloat option" where
  "fetch_float v = map_option Float v"

subsection \<open>Statements\<close>

datatype cond = NameEq string | NameIn "string list" | AgeGt int | GpaLt real64 | RowidEq int

datatype assign = GpaSet "real64 option" | GpaPlus real64 | GpaMinus real64

datatype statement =
    DropTableIfExists string
  | CreateTable string "item list"
  | CreateTableIfNotExists string "item list"
  | InsertStudent "string option" "string option" "int option" "pyfloat option"
  | UpdateStudents assign cond
  | DeleteStudents cond

text \<open>A WHERE clause selects a row when it evaluates to true; a comparison with NULL
  does not.\<close>

fun sql_holds :: "cond \<Rightarrow> student \<Rightarrow> bool" where
  "sql_holds (NameEq s) r = (name r = s)"
| "sql_holds (NameIn ss) r = (name r \<in> set ss)"
| "sql_holds (AgeGt k) r = (case age r of None \<Rightarrow> False | Some a \<Rightarrow> k < a)"
| "sql_holds (GpaLt x) r = (case gpa r of None \<Rightarrow> False | Some g \<Rightarrow> real_less g x)"
| "sql_holds (RowidEq i) r = (rowid r = i)"

fun apply_assign :: "assign \<Rightarrow> student \<Rightarrow> student" where
  "apply_assign (GpaSet v) r = r\<lparr>gpa := v\<rparr>"
| "apply_assign (GpaPlus x) r =
     r\<lparr>gpa := (case gpa r of None \<Rightarrow> None | Some g \<Rightarrow> real_add g x)\<rparr>"
| "apply_assign (GpaMinus x) r =
     r\<lparr>gpa := (case gpa r of None \<Rightarrow> None | Some g \<Rightarrow> real_sub g x)\<rparr>"

text \<open>
  SQLite's grammar for the body of CREATE TABLE: a non-empty list of column definitions,
  then the table constraints. \<open>syntax_error_near\<close> is the token at which the parser
  gives up, if it does: the closing parenthesis of an empty body, the keyword of a table
  constraint that comes first, or the name of a column defined after a table constraint.
\<close>

fun first_column :: "item list \<Rightarrow> string option" where
  "first_column [] = None"
| "first_column (Column n t # xs) = Some n"
| "first_column (TableConstraint c # xs) = first_column xs"

fun misplaced_column :: "item list \<Rightarrow> string option" where
  "misplaced_column [] = None"
| "misplaced_column (Column n t # xs) = misplaced_column xs"
| "misplaced_column (TableConstraint c # xs) = first_column xs"

definition keyword :: "string \<Rightarrow> string" where
  "keyword c = takeWhile (\<lambda>ch. ch \<noteq> CHR '' '' \<and> ch \<noteq> CHR ''('') c"

fun syntax_error_near :: "item list \<Rightarrow> string option" where
  "syntax_error_near [] = Some '')''"
| "syntax_error_near (TableConstraint c # xs) = Some (keyword c)"
| "syntax_error_near (Column n t # xs) = misplaced_column xs"

definition syntax_error :: "string \<Rightarrow> sqlite_error" where
  \<open>syntax_error tok = OperationalError (''near "'' @ tok @ ''": syntax error'')\<close>

definition no_such_table :: sqlite_error where
  "no_such_table = OperationalError ''no such table: students''"

text \<open>Compiling a statement: what \<^verbatim>\<open>sqlite3_prepare\<close> rejects before anything
  runs.\<close>

fun prepare :: "statement \<Rightarrow> database \<Rightarrow> sqlite_error option" where
  "prepare (DropTableIfExists n) d = None"
| "prepare (CreateTable n its) d =
     (case syntax_error_near its of
        Some tok \<Rightarrow> Some (syntax_error tok)
      | None \<Rightarrow>
         (if table_exists n d then Some (OperationalError (''table '' @ n @ '' already exists''))
          else None))"
| "prepare (CreateTableIfNotExists n its) d =
     (case syntax_error_near its of Some tok \<Rightarrow> Some (syntax_error tok) | None \<Rightarrow> None)"
| "prepare (InsertStudent n e a g) d =
     (if table_exists ''students'' d then None else Some no_such_table)"
| "prepare (UpdateStudents a c) d =
     (if table_exists ''students'' d then None else Some no_such_table)"
| "prepare (DeleteStudents c) d =
     (if table_exists ''students'' d then None else Some no_such_table)"

text \<open>The binding begins a transaction before INSERT, UPDATE and DELETE, and before no
  other statement.\<close>

fun is_dml :: "statement \<Rightarrow> bool" where
  "is_dml (InsertStudent n e a g) = True"
| "is_dml (UpdateStudents a c) = True"
| "is_dml (DeleteStudents c) = True"
| "is_dml _ = False"

definition int64_ok :: "int \<Rightarrow> bool" where
  "int64_ok i = (- (2 ^ 63) \<le> i \<and> i < 2 ^ 63)"

text \<open>Binding the parameters: a Python int outside 64 bits raises OverflowError.\<close>

fun bind_error :: "statement \<Rightarrow> exn option" where
  "bind_error (InsertStudent n e (Some a) g) =
     (if int64_ok a then None
      else Some (OverflowError ''Python int too large to convert to SQLite INTEGER''))"
| "bind_error _ = None"

text \<open>The id AUTOINCREMENT gives the next row: one more than the largest id the table
  holds or has ever handed out.\<close>

definition next_rowid :: "database \<Rightarrow> int" where
  "next_rowid d = fold max (map rowid (students_rows d)) (students_seq d) + 1"

definition email_taken :: "string \<Rightarrow> database \<Rightarrow> bool" where
  "email_taken e d = (Some e \<in> set (map email (students_rows d)))"

text \<open>\<^verbatim>\<open>UPDATE students SET gpa = ... WHERE ...\<close> on the rows.\<close>

definition update_rows :: "assign \<Rightarrow> cond \<Rightarrow> database \<Rightarrow> database" where
  "update_rows a c d =
     d\<lparr>students_rows :=
         map (\<lambda>r. if sql_holds c r then apply_assign a r else r) (students_rows d)\<rparr>"

text \<open>Running a compiled statement on the contents the connection sees.\<close>

fun step :: "statement \<Rightarrow> database \<Rightarrow> sqlite_error + database" where
  "step (DropTableIfExists n) d =
     Inr (if n = ''students''
          then \<lparr>catalog = filter (\<lambda>t. fst t \<noteq> n) (catalog d), students_rows = [],
                students_seq = 0\<rparr>
          else d\<lparr>catalog := filter (\<lambda>t. fst t \<noteq> n) (catalog d)\<rparr>)"
| "step (CreateTable n its) d = Inr (d\<lparr>catalog := catalog d @ [(n, its)]\<rparr>)"
| "step (CreateTableIfNotExists n its) d =
     Inr (if table_exists n d then d else d\<lparr>catalog := catalog d @ [(n, its)]\<rparr>)"
| "step (InsertStudent n e a g) d =
     (if \<not> int64_ok (next_rowid d) then Inl (OperationalError ''database or disk is full'')
      else case n of
        None \<Rightarrow> Inl (IntegrityError ''NOT NULL constraint failed: students.name'')
      | Some nm \<Rightarrow>
         (if (case e of None \<Rightarrow> False | Some em \<Rightarrow> email_taken em d)
          then Inl (IntegrityError ''UNIQUE constraint failed: students.email'')
          else Inr (d\<lparr>students_rows := students_rows d @
                        [\<lparr>rowid = next_rowid d, name = nm, email = e, age = a,
                          gpa = bind_float g, enrolled = Some 1\<rparr>],
                      students_seq := next_rowid d\<rparr>)))"
| "step (UpdateStudents a c) d = Inr (update_rows a c d)"
| "step (DeleteStudents c) d =
     Inr (d\<lparr>students_rows := filter (\<lambda>r. \<not> sql_holds c r) (students_rows d)\<rparr>)"

subsection \<open>The connection\<close>

text \<open>
  \<open>committed\<close> is what the database file durably holds; \<open>pending\<close> is the
  contents inside the open transaction, if one is open. The connection reads
  \<open>current\<close>.
\<close>

record connection =
  committed :: database
  pending :: "database option"

definition connect :: "database \<Rightarrow> connection" where
  "connect d = \<lparr>committed = d, pending = None\<rparr>"

definition current :: "connection \<Rightarrow> database" where
  "current c = (case pending c of None \<Rightarrow> committed c | Some d \<Rightarrow> d)"

definition begin_if_needed :: "connection \<Rightarrow> connection" where
  "begin_if_needed c =
     (case pending c of None \<Rightarrow> c\<lparr>pending := Some (committed c)\<rparr> | Some d \<Rightarrow> c)"

text \<open>Outside a transaction a statement's effect is durable at once (autocommit).\<close>

definition write_db :: "database \<Rightarrow> connection \<Rightarrow> connection" where
  "write_db d c =
     (case pending c of None \<Rightarrow> c\<lparr>committed := d\<rparr> | Some d0 \<Rightarrow> c\<lparr>pending := Some d\<rparr>)"

text \<open>
  \<^verbatim>\<open>cursor.execute\<close>. The first argument is the failure of the store on this call
  for a reason outside the statement and the tables (a locked database, an I/O error), if
  there is one. The result is the exception raised, if any, and the connection afterwards.
\<close>

definition execute ::
  "sqlite_error option \<Rightarrow> statement \<Rightarrow> connection \<Rightarrow> exn option \<times> connection" where
  "execute fault st c =
     (case prepare st (current c) of
        Some e \<Rightarrow> (Some (Sqlite3Error e), c)
      | None \<Rightarrow>
         (let c1 = (if is_dml st then begin_if_needed c else c)
          in case bind_error st of
               Some x \<Rightarrow> (Some x, c1)
             | None \<Rightarrow>
                (case fault of
                   Some e \<Rightarrow> (Some (Sqlite3Error e), c1)
                 | None \<Rightarrow>
                    (case step st (current c1) of
                       Inl e \<Rightarrow> (Some (Sqlite3Error e), c1)
                     | Inr d \<Rightarrow> (None, write_db d c1)))))"

text \<open>\<^verbatim>\<open>connection.commit\<close> does nothing when no transaction is open; otherwise
  it makes the pending contents durable, unless the store fails.\<close>

definition commit :: "sqlite_error option \<Rightarrow> connection \<Rightarrow> exn option \<times> connection" where
  "commit fault c =
     (case pending c of
        None \<Rightarrow> (None, c)
      | Some d \<Rightarrow>
         (case fault of
            Some e \<Rightarrow> (Some (Sqlite3Error e), c)
          | None \<Rightarrow> (None, \<lparr>committed = d, pending = None\<rparr>)))"

definition rollback :: "connection \<Rightarrow> connection" where
  "rollback c = c\<lparr>pending := None\<rparr>"

text \<open>\<^verbatim>\<open>SELECT * FROM students WHERE ...\<close> on the connection: the rows the
  connection sees, in rowid order. A SELECT begins no transaction.\<close>

definition select_where :: "cond \<Rightarrow> connection \<Rightarrow> sqlite_error + student list" where
  "select_where w c =
     (if table_exists ''students'' (current c)
      then Inr (filter (sql_holds w) (students_rows (current c)))
      else Inl no_such_table)"

text \<open>What Python receives for the four inserted columns of a row that a SELECT
  returns.\<close>

definition fetched_values ::
  "student \<Rightarrow> string option \<times> string option \<times> int option \<times> pyfloat option" where
  "fetched_values r = (Some (name r), email r, age r, fetch_float (gpa r))"

subsection \<open>The running script\<close>

text \<open>
  What a script has done so far: the state of its connection, and the calls into the store
  and the lines printed, in order.
\<close>

datatype message = TransactionSuccessful | TransactionFailed sqlite_error | AllChangesRolledBack

datatype event = CallExecute statement | CallCommit | CallRollback | Print message

record prog =
  conn :: connection
  trace :: "event list"

definition call_execute ::
  "sqlite_error option \<Rightarrow> statement \<Rightarrow> prog \<Rightarrow> exn option \<times> prog" where
  "call_execute fault st p =
     (case execute fault st (conn p) of
        (r, c) \<Rightarrow> (r, \<lparr>conn = c, trace = trace p @ [CallExecute st]\<rparr>))"

definition call_commit :: "sqlite_error option \<Rightarrow> prog \<Rightarrow> exn option \<times> prog" where
  "call_commit fault p =
     (case commit fault (conn p) of
        (r, c) \<Rightarrow> (r, \<lparr>conn = c, trace = trace p @ [CallCommit]\<rparr>))"

definition call_rollback :: "prog \<Rightarrow> prog" where
  "call_rollback p = \<lparr>conn = rollback (conn p), trace = trace p @ [CallRollback]\<rparr>"

definition py_print :: "message \<Rightarrow> prog \<Rightarrow> prog" where
  "py_print m p = p\<lparr>trace := trace p @ [Print m]\<rparr>"

text \<open>Straight-line script code with no store failure: an exception that nothing catches
  ends the script.\<close>

datatype call = Execute statement | Commit

fun run_calls :: "call list \<Rightarrow> prog \<Rightarrow> exn option \<times> prog" where
  "run_calls [] p = (None, p)"
| "run_calls (Execute st # cs) p =
     (case call_execute None st p of
        (Some x, p1) \<Rightarrow> (Some x, p1)
      | (None, p1) \<Rightarrow> run_calls cs p1)"
| "run_calls (Commit # cs) p =
     (case call_commit None p of
        (Some x, p1) \<Rightarrow> (Some x, p1)
      | (None, p1) \<Rightarrow> run_calls cs p1)"

section \<open>The transfer of \<^verbatim>\<open>helpsheet.py\<close>, section 8\<close>

text \<open>
  The \<^verbatim>\<open>try\<close> block: the two UPDATE statements and the commit. The script has the
  names \<^verbatim>\<open>'Alice Johnson'\<close>, \<^verbatim>\<open>'Bob Smith'\<close> and the amount \<^verbatim>\<open>0.2\<close>
  written in; here they are the parameters \<open>src\<close>, \<open>dst\<close> and \<open>amt\<close>.
  \<open>f1\<close>, \<open>f2\<close> and \<open>f3\<close> are the failures of the store on the three calls.
\<close>

definition transfer_try ::
  "sqlite_error option \<Rightarrow> sqlite_error option \<Rightarrow> sqlite_error option \<Rightarrow>
   string \<Rightarrow> string \<Rightarrow> real64 \<Rightarrow> prog \<Rightarrow> exn option \<times> prog" where
  "transfer_try f1 f2 f3 src dst amt p =
     (case call_execute f1 (UpdateStudents (GpaMinus amt) (NameEq src)) p of
        (Some x, p1) \<Rightarrow> (Some x, p1)
      | (None, p1) \<Rightarrow>
         (case call_execute f2 (UpdateStudents (GpaPlus amt) (NameEq dst)) p1 of
            (Some x, p2) \<Rightarrow> (Some x, p2)
          | (None, p2) \<Rightarrow>
             (case call_commit f3 p2 of
                (Some x, p3) \<Rightarrow> (Some x, p3)
              | (None, p3) \<Rightarrow> (None, py_print TransactionSuccessful p3))))"

text \<open>The handler \<^verbatim>\<open>except sqlite3.Error as error\<close>: rollback, then the two
  printed lines. It raises nothing.\<close>

definition transfer_except :: "sqlite_error \<Rightarrow> prog \<Rightarrow> prog" where
  "transfer_except e p =
     py_print AllChangesRolledBack (py_print (TransactionFailed e) (call_rollback p))"

text \<open>The whole \<^verbatim>\<open>try ... except\<close> statement. The first component of the result is
  the exception that leaves the statement, if one does.\<close>

definition transfer ::
  "sqlite_error option \<Rightarrow> sqlite_error option \<Rightarrow> sqlite_error option \<Rightarrow>
   string \<Rightarrow> string \<Rightarrow> real64 \<Rightarrow> prog \<Rightarrow> exn option \<times> prog" where
  "transfer f1 f2 f3 src dst amt p =
     (case transfer_try f1 f2 f3 src dst amt p of
        (None, p1) \<Rightarrow> (None, p1)
      | (Some (Sqlite3Error e), p1) \<Rightarrow> (None, transfer_except e p1)
      | (Some (OverflowError m), p1) \<Rightarrow> (Some (OverflowError m), p1))"

definition helpsheet_transfer ::
  "sqlite_error option \<Rightarrow> sqlite_error option \<Rightarrow> sqlite_error option \<Rightarrow>
   prog \<Rightarrow> exn option \<times> prog" where
  "helpsheet_transfer f1 f2 f3 =
     transfer f1 f2 f3 ''Alice Johnson'' ''Bob Smith'' (lit (2 / 10))"

text \<open>\<^verbatim>\<open>SELECT name, gpa FROM students WHERE name IN (?, ?)\<close>, printed before and
  after the transfer.\<close>

definition select_name_gpa ::
  "string list \<Rightarrow> connection \<Rightarrow> sqlite_error + (string \<times> real64 option) list" where
  "select_name_gpa ns c =
     (case select_where (NameIn ns) c of
        Inl e \<Rightarrow> Inl e
      | Inr rs \<Rightarrow> Inr (map (\<lambda>r. (name r, gpa r)) rs))"

text \<open>Sections 2 to 7 of \<^verbatim>\<open>helpsheet.py\<close>: every call that writes to the database,
  in the script's order (the SELECT statements in between change nothing).\<close>

definition students_body :: "item list" where
  "students_body =
     [Column ''id'' ''INTEGER PRIMARY KEY AUTOINCREMENT'',
      Column ''name'' ''TEXT NOT NULL'',
      Column ''email'' ''TEXT UNIQUE'',
      Column ''age'' ''INTEGER'',
      Column ''gpa'' ''REAL'',
      Column ''enrolled'' ''INTEGER DEFAULT 1'']"

definition students_list :: "(string \<times> string \<times> int \<times> real64) list" where
  "students_list =
     [(''Bob Smith'', ''bob@email.com'', 22, lit (35 / 10)),
      (''Carol White'', ''carol@email.com'', 21, lit (39 / 10)),
      (''David Brown'', ''david@email.com'', 23, lit (32 / 10)),
      (''Eve Davis'', ''eve@email.com'', 20, lit (37 / 10))]"

definition insert_call :: "string \<times> string \<times> int \<times> real64 \<Rightarrow> call" where
  "insert_call t =
     (case t of (n, e, a, g) \<Rightarrow>
        Execute (InsertStudent (Some n) (Some e) (Some a) (Some (Float g))))"

definition helpsheet_sections_2_to_7 :: "call list" where
  "helpsheet_sections_2_to_7 =
     [Execute (DropTableIfExists ''students''),
      Execute (CreateTable ''students'' students_body),
      Commit,
      insert_call (''Alice Johnson'', ''alice@email.com'', 20, lit (38 / 10))]
     @ map insert_call students_list
     @ [insert_call (''Frank Miller'', ''frank@email.com'', 22, lit (36 / 10)),
        Commit,
        Execute (UpdateStudents (GpaSet (Some (lit (39 / 10)))) (NameEq ''Bob Smith'')),
        Execute (UpdateStudents (GpaPlus (lit (1 / 10))) (AgeGt 22)),
        Commit,
        insert_call (''Test Student'', ''test@email.com'', 19, lit (25 / 10)),
        Commit,
        Execute (DeleteStudents (NameEq ''Test Student'')),
        Execute (DeleteStudents (GpaLt (lit 3))),
        Commit]"

text \<open>The first three rows that section 3 inserts, and the database that holds just
  them.\<close>

definition alice_inserted :: student where
  "alice_inserted =
     \<lparr>rowid = 1, name = ''Alice Johnson'', email = Some ''alice@email.com'', age = Some 20,
      gpa = Some (lit (38 / 10)), enrolled = Some 1\<rparr>"

definition bob_inserted :: student where
  "bob_inserted =
     \<lparr>rowid = 2, name = ''Bob Smith'', email = Some ''bob@email.com'', age = Some 22,
      gpa = Some (lit (35 / 10)), enrolled = Some 1\<rparr>"

definition carol_inserted :: student where
  "carol_inserted =
     \<lparr>rowid = 3, name = ''Carol White'', email = Some ''carol@email.com'', age = Some 21,
      gpa = Some (lit (39 / 10)), enrolled = Some 1\<rparr>"

definition three_students :: database where
  "three_students =
     \<lparr>catalog = [(''students'', students_body)],
      students_rows = [alice_inserted, bob_inserted, carol_inserted],
      students_seq = 3\<rparr>"

text \<open>
  What the frame claim of the transfer says of the contents before and after: the same
  tables, the same AUTOINCREMENT counter, the same rows in the same order, each row equal
  to its old self in every attribute but \<^verbatim>\<open>gpa\<close>, and entirely so unless its
  name is \<open>src\<close> or \<open>dst\<close>.
\<close>

definition row_frame :: "string \<Rightarrow> string \<Rightarrow> student \<Rightarrow> student \<Rightarrow> bool" where
  "row_frame src dst r r' =
     (r'\<lparr>gpa := gpa r\<rparr> = r \<and> (name r \<noteq> src \<and> name r \<noteq> dst \<longrightarrow> r' = r))"

definition transfer_frame :: "string \<Rightarrow> string \<Rightarrow> database \<Rightarrow> database \<Rightarrow> bool" where
  "transfer_frame src dst d d' =
     (catalog d' = catalog d \<and> students_seq d' = students_seq d \<and>
      list_all2 (row_frame src dst) (students_rows d) (students_rows d'))"

section \<open>The university scripts \<^verbatim>\<open>testtable.py\<close> and \<^verbatim>\<open>main.py\<close>\<close>

definition colleges_body :: "item list" where
  "colleges_body =
     [Column ''CollegeID'' ''INTEGER PRIMARY KEY AUTOINCREMENT'',
      Column ''CollegeName'' ''TEXT NOT NULL'',
      Column ''DeanID'' ''INTEGER'',
      TableConstraint ''FOREIGN KEY (DeanID) REFERENCES professors(ProfessorID)'']"

definition departments_body :: "item list" where
  "departments_body =
     [Column ''DeptID'' ''INTEGER PRIMARY KEY'',
      Column ''DeptName'' ''TEXT NOT NULL'',
      Column ''CollegeID'' ''INTEGER NOT NULL'',
      Column ''DeptHeadID'' ''INTEGER NOT NULL'',
      TableConstraint ''FOREIGN KEY (CollegeID) REFERENCES colleges(CollegeID)'',
      TableConstraint ''FOREIGN KEY (DeptHeadID) REFERENCES professors(ProfessorID)'']"

definition professors_body :: "item list" where
  "professors_body =
     [Column ''ProfessorID'' ''INTEGER PRIMARY KEY AUTOINCREMENT'',
      Column ''FirstName'' ''TEXT NOT NULL'',
      Column ''LastName'' ''TEXT NOT NULL'',
      Column ''DateOfBirth'' ''DATE NOT NULL'',
      TableConstraint ''CHECK ((strftime('%F') - DateOfBirth) >= 18)'',
      Column ''PhoneNumber'' ''TEXT UNIQUE NOT NULL'',
      Column ''OfficeLocation'' ''TEXT NOT NULL'']"

definition testtable_py :: "call list" where
  "testtable_py = [Execute (CreateTableIfNotExists ''colleges'' colleges_body), Commit]"

definition main_py :: "call list" where
  "main_py =
     [Execute (CreateTableIfNotExists ''colleges'' colleges_body),
      Execute (CreateTableIfNotExists ''departments'' departments_body),
      Execute (CreateTableIfNotExists ''professors'' professors_body),
      Commit]"

text \<open>
  One run of a script on a database file: a fresh connection, the calls, and what the file
  holds when the process has ended. A transaction still open then is lost.
\<close>

definition run_script :: "call list \<Rightarrow> database \<Rightarrow> exn option \<times> database" where
  "run_script cs d =
     (case run_calls cs \<lparr>conn = connect d, trace = []\<rparr> of
        (r, p) \<Rightarrow> (r, committed (conn p)))"

section \<open>Values of the REAL arithmetic in the scripts\<close>

text \<open>
  The literals of the scripts and the sums and differences that occur below, each computed
  from \<open>round64\<close>. A binary64 number appears as a fraction with a power of two as
  denominator: \<open>4278419646001971 / 2 ^ 50\<close> is the number Python prints as 3.8,
  \<open>8782019273372467 / 2 ^ 51\<close> is 3.9, \<open>2026619832316723 / 2 ^ 49\<close> is
  3.5999999999999996, \<open>2308094809027379 / 2 ^ 49\<close> is 4.1,
  \<open>7430939385161319 / 2 ^ 51\<close> is 3.3000000000000003 and
  \<open>8331659310635417 / 2 ^ 50\<close> is 7.3999999999999995.
\<close>

lemma lit_38:
  "lit (38 / 10) = Finite (4278419646001971 / 1125899906842624)"
  by code_simp

lemma lit_35:
  "lit (35 / 10) = Finite (7 / 2)"
  by code_simp

lemma lit_39:
  "lit (39 / 10) = Finite (8782019273372467 / 2251799813685248)"
  by code_simp

lemma lit_32:
  "lit (32 / 10) = Finite (3602879701896397 / 1125899906842624)"
  by code_simp

lemma lit_37:
  "lit (37 / 10) = Finite (4165829655317709 / 1125899906842624)"
  by code_simp

lemma lit_36:
  "lit (36 / 10) = Finite (8106479329266893 / 2251799813685248)"
  by code_simp

lemma lit_25:
  "lit (25 / 10) = Finite (5 / 2)"
  by code_simp

lemma lit_3:
  "lit 3 = Finite 3"
  by code_simp

lemma lit_01:
  "lit (1 / 10) = Finite (3602879701896397 / 36028797018963968)"
  by code_simp

lemma lit_02:
  "lit (2 / 10) = Finite (3602879701896397 / 18014398509481984)"
  by code_simp

lemma lit_41:
  "lit (41 / 10) = Finite (2308094809027379 / 562949953421312)"
  by code_simp

lemma lit_33:
  "lit (33 / 10) = Finite (3715469692580659 / 1125899906842624)"
  by code_simp

lemmas lits = lit_38 lit_35 lit_39 lit_32 lit_37 lit_36 lit_25 lit_3 lit_01 lit_02

lemma sub_38_02:
  "real_sub (lit (38 / 10)) (lit (2 / 10)) =
     Some (Finite (2026619832316723 / 562949953421312))"
  by code_simp

lemma add_39_02:
  "real_add (lit (39 / 10)) (lit (2 / 10)) = Some (lit (41 / 10))"
  by code_simp

lemma round_david:
  "round64 (118895030162581101 / 36028797018963968) =
     Finite (7430939385161319 / 2251799813685248)"
  by code_simp

lemma round_38_minus_02:
  "round64 (64851834634135139 / 18014398509481984) = Finite (2026619832316723 / 562949953421312)"
  by code_simp

lemma round_back_to_38:
  "round64 (68454714336031533 / 18014398509481984) = Finite (4278419646001971 / 1125899906842624)"
  by code_simp

lemma round_35_minus_02:
  "round64 (59447515081290547 / 18014398509481984) = Finite (3715469692580659 / 1125899906842624)"
  by code_simp

lemma round_39_plus_02:
  "round64 (73859033888876133 / 18014398509481984) = Finite (2308094809027379 / 562949953421312)"
  by code_simp

lemma round_33_plus_41:
  "round64 (8331659310635417 / 1125899906842624) = Finite (8331659310635417 / 1125899906842624)"
  by code_simp

lemma round_35_plus_39:
  "round64 (16663318621270835 / 2251799813685248) = Finite (4165829655317709 / 562949953421312)"
  by code_simp

lemma round_35_plus_02:
  "round64 (66653274485083341 / 18014398509481984) = Finite (4165829655317709 / 1125899906842624)"
  by code_simp

lemmas roundings = round_38_minus_02 round_back_to_38 round_35_minus_02 round_39_plus_02
  round_33_plus_41 round_35_plus_39 round_35_plus_02

section \<open>Auxiliary facts about the store\<close>

lemmas store_defs = call_execute_def call_commit_def execute_def commit_def connect_def
  current_def begin_if_needed_def write_db_def table_exists_def update_rows_def
  next_rowid_def email_taken_def int64_ok_def insert_call_def

lemma not_in_filtered_names: "n \<notin> fst ` {x \<in> set xs. fst x \<noteq> n}"
  by auto

lemma table_exists_update_rows [simp]:
  "table_exists n (update_rows a w d) = table_exists n d"
  by (simp add: table_exists_def update_rows_def)

lemma execute_update:
  "execute f (UpdateStudents a w) c =
     (if table_exists ''students'' (current c)
      then (case f of
              Some e \<Rightarrow> (Some (Sqlite3Error e),
                         \<lparr>committed = committed c, pending = Some (current c)\<rparr>)
            | None \<Rightarrow> (None, \<lparr>committed = committed c,
                               pending = Some (update_rows a w (current c))\<rparr>))
      else (Some (Sqlite3Error no_such_table), c))"
  by (cases c) (simp add: execute_def current_def begin_if_needed_def write_db_def
      split: option.splits)

lemma call_execute_update:
  "call_execute f (UpdateStudents a w) p =
     (if table_exists ''students'' (current (conn p))
      then (case f of
              Some e \<Rightarrow> (Some (Sqlite3Error e),
                         \<lparr>conn = \<lparr>committed = committed (conn p),
                                   pending = Some (current (conn p))\<rparr>,
                          trace = trace p @ [CallExecute (UpdateStudents a w)]\<rparr>)
            | None \<Rightarrow> (None,
                       \<lparr>conn = \<lparr>committed = committed (conn p),
                                 pending = Some (update_rows a w (current (conn p)))\<rparr>,
                        trace = trace p @ [CallExecute (UpdateStudents a w)]\<rparr>))
      else (Some (Sqlite3Error no_such_table),
            \<lparr>conn = conn p, trace = trace p @ [CallExecute (UpdateStudents a w)]\<rparr>))"
  by (simp add: call_execute_def execute_update split: option.splits)

lemma sql_holds_NameEq: "sql_holds (NameEq n) = (\<lambda>r. name r = n)"
  by (rule ext) simp

lemma sql_holds_RowidEq: "sql_holds (RowidEq i) = (\<lambda>r. rowid r = i)"
  by (rule ext) simp

lemma filter_name_map:
  "(\<And>r. name (g r) = name r) \<Longrightarrow>
   filter (\<lambda>r. name r = n) (map g xs) = map g (filter (\<lambda>r. name r = n) xs)"
  by (induction xs) auto

lemma name_apply_assign [simp]: "name (apply_assign a r) = name r"
  by (cases a) auto

lemma select_where_Inr:
  "select_where w c = Inr rs \<Longrightarrow>
   table_exists ''students'' (current c) \<and>
   filter (sql_holds w) (students_rows (current c)) = rs"
  by (auto simp: select_where_def split: if_splits)

lemma select_after_updates:
  assumes "table_exists ''students'' d"
  shows "select_where (NameEq n)
           \<lparr>committed = update_rows a2 (NameEq n2) (update_rows a1 (NameEq n1) d),
            pending = None\<rparr>
         = Inr (map (\<lambda>r. if n = n2 then apply_assign a2 r else r)
                 (map (\<lambda>r. if n = n1 then apply_assign a1 r else r)
                    (filter (\<lambda>r. name r = n) (students_rows d))))"
proof -
  let ?g1 = "\<lambda>r. if sql_holds (NameEq n1) r then apply_assign a1 r else r"
  let ?g2 = "\<lambda>r. if sql_holds (NameEq n2) r then apply_assign a2 r else r"
  have "filter (\<lambda>r. name r = n) (map ?g2 (map ?g1 (students_rows d)))
        = map ?g2 (map ?g1 (filter (\<lambda>r. name r = n) (students_rows d)))"
    by (simp add: filter_name_map)
  also have "\<dots> = map (\<lambda>r. if n = n2 then apply_assign a2 r else r)
                 (map (\<lambda>r. if n = n1 then apply_assign a1 r else r)
                    (filter (\<lambda>r. name r = n) (students_rows d)))"
    by (induction "students_rows d" arbitrary: d) (auto intro!: map_cong)
  finally show ?thesis
    using assms
    by (simp add: select_where_def current_def update_rows_def table_exists_def
        sql_holds_NameEq)
qed

lemma fold_max_ge_init: "(a::int) \<le> fold max xs a"
proof (induction xs arbitrary: a)
  case Nil
  show ?case by simp
next
  case (Cons x xs)
  have "a \<le> max x a" by simp
  also have "\<dots> \<le> fold max xs (max x a)" by (rule Cons.IH)
  finally show ?case by simp
qed

lemma fold_max_ge_elem: "x \<in> set xs \<Longrightarrow> (x::int) \<le> fold max xs a"
proof (induction xs arbitrary: a)
  case Nil
  then show ?case by simp
next
  case (Cons y ys)
  show ?case
  proof (cases "x = y")
    case True
    have "x \<le> max y a" using True by simp
    also have "\<dots> \<le> fold max ys (max y a)" by (rule fold_max_ge_init)
    finally show ?thesis by simp
  next
    case False
    with Cons.prems have "x \<in> set ys" by simp
    from Cons.IH [OF this] show ?thesis by simp
  qed
qed

lemma rowid_below_next: "r \<in> set (students_rows d) \<Longrightarrow> rowid r < next_rowid d"
proof -
  assume "r \<in> set (students_rows d)"
  then have "rowid r \<in> set (map rowid (students_rows d))" by simp
  from fold_max_ge_elem [OF this, of "students_seq d"] show ?thesis
    by (simp add: next_rowid_def)
qed

lemma no_row_with_next_rowid:
  "filter (\<lambda>r. rowid r = next_rowid d) (students_rows d) = []"
  by (auto simp: filter_empty_conv dest: rowid_below_next)

lemma execute_insert_ok:
  assumes "execute f (InsertStudent no e a g) c = (None, c')"
  shows "\<exists>n. no = Some n \<and> table_exists ''students'' (current c) \<and>
           c' = \<lparr>committed = committed c,
                 pending = Some ((current c)\<lparr>students_rows := students_rows (current c) @
                     [\<lparr>rowid = next_rowid (current c), name = n, email = e, age = a,
                       gpa = bind_float g, enrolled = Some 1\<rparr>],
                   students_seq := next_rowid (current c)\<rparr>)\<rparr>"
  using assms
  by (cases c; cases no; cases a)
     (auto simp: execute_def current_def begin_if_needed_def write_db_def Let_def
           split: option.splits if_splits sum.splits)

lemma execute_insert_eval:
  assumes "table_exists ''students'' (current c)" and "int64_ok a"
    and "int64_ok (next_rowid (current c))" and "\<not> email_taken em (current c)"
  shows "execute None (InsertStudent (Some n) (Some em) (Some a) g) c =
     (None, \<lparr>committed = committed c,
             pending = Some ((current c)\<lparr>students_rows := students_rows (current c) @
                 [\<lparr>rowid = next_rowid (current c), name = n, email = Some em, age = Some a,
                   gpa = bind_float g, enrolled = Some 1\<rparr>],
               students_seq := next_rowid (current c)\<rparr>)\<rparr>)"
  using assms
  by (cases c)
     (auto simp: execute_def current_def begin_if_needed_def write_db_def Let_def
           split: option.splits)

lemma create_if_not_exists_ok:
  "syntax_error_near its = None \<Longrightarrow>
   call_execute None (CreateTableIfNotExists n its) p =
     (None, \<lparr>conn = write_db
                       (if table_exists n (current (conn p)) then current (conn p)
                        else (current (conn p))
                               \<lparr>catalog := catalog (current (conn p)) @ [(n, its)]\<rparr>)
                       (conn p),
             trace = trace p @ [CallExecute (CreateTableIfNotExists n its)]\<rparr>)"
  by (simp add: call_execute_def execute_def Let_def)

lemma create_if_not_exists_syntax_error:
  "syntax_error_near its = Some tok \<Longrightarrow>
   call_execute f (CreateTableIfNotExists n its) p =
     (Some (Sqlite3Error (syntax_error tok)),
      \<lparr>conn = conn p, trace = trace p @ [CallExecute (CreateTableIfNotExists n its)]\<rparr>)"
  by (simp add: call_execute_def execute_def)

section \<open>The two ways the transfer ends\<close>

lemma transfer_commits:
  assumes "table_exists ''students'' (current (conn p))"
  shows "transfer None None None src dst amt p =
     (None, \<lparr>conn = \<lparr>committed = update_rows (GpaPlus amt) (NameEq dst)
                                    (update_rows (GpaMinus amt) (NameEq src) (current (conn p))),
                       pending = None\<rparr>,
             trace = trace p @ [CallExecute (UpdateStudents (GpaMinus amt) (NameEq src)),
                                CallExecute (UpdateStudents (GpaPlus amt) (NameEq dst)),
                                CallCommit, Print TransactionSuccessful]\<rparr>)"
  using assms
  by (simp add: transfer_def transfer_try_def call_execute_def call_commit_def py_print_def
      execute_update commit_def current_def)

lemma transfer_rolls_back:
  assumes "\<not> (table_exists ''students'' (current (conn p)) \<and>
              f1 = None \<and> f2 = None \<and> f3 = None)"
  shows "\<exists>e evs. transfer f1 f2 f3 src dst amt p =
     (None, \<lparr>conn = \<lparr>committed = committed (conn p), pending = None\<rparr>,
             trace = trace p @ evs @ [CallRollback, Print (TransactionFailed e),
                                      Print AllChangesRolledBack]\<rparr>)"
  using assms
  by (auto simp: transfer_def transfer_try_def transfer_except_def call_execute_def
      call_commit_def call_rollback_def py_print_def rollback_def
      execute_update commit_def current_def split: option.splits)

section \<open>The example database\<close>

text \<open>\<open>three_students\<close> is what the file holds when the script's own statements have
  created the table and inserted the first three rows.\<close>

lemma three_students_reached:
  "run_script
     [Execute (DropTableIfExists ''students''), Execute (CreateTable ''students'' students_body),
      Commit,
      insert_call (''Alice Johnson'', ''alice@email.com'', 20, lit (38 / 10)),
      insert_call (''Bob Smith'', ''bob@email.com'', 22, lit (35 / 10)),
      insert_call (''Carol White'', ''carol@email.com'', 21, lit (39 / 10)),
      Commit] empty_database = (None, three_students)"
  by (simp add: run_script_def store_defs students_body_def empty_database_def
      three_students_def alice_inserted_def bob_inserted_def carol_inserted_def)

lemma three_students_exists [simp]: "table_exists ''students'' three_students"
  by (simp add: table_exists_def three_students_def)

lemma select_three_students:
  "select_where (NameEq n) (connect three_students) =
     Inr (filter (\<lambda>r. name r = n) [alice_inserted, bob_inserted, carol_inserted])"
  by (simp add: select_where_def connect_def current_def sql_holds_NameEq)
     (simp add: three_students_def)

lemma names_inserted [simp]:
  "name alice_inserted = ''Alice Johnson''" "name bob_inserted = ''Bob Smith''"
  "name carol_inserted = ''Carol White''"
  by (simp_all add: alice_inserted_def bob_inserted_def carol_inserted_def)

lemma gpa_inserted [simp]:
  "gpa alice_inserted = Some (lit (38 / 10))" "gpa bob_inserted = Some (lit (35 / 10))"
  "gpa carol_inserted = Some (lit (39 / 10))"
  unfolding alice_inserted_def bob_inserted_def carol_inserted_def by simp_all

lemma transfer_three_students:
  "transfer None None None src dst amt \<lparr>conn = connect three_students, trace = []\<rparr> =
     (None, \<lparr>conn = \<lparr>committed = update_rows (GpaPlus amt) (NameEq dst)
                                    (update_rows (GpaMinus amt) (NameEq src) three_students),
                       pending = None\<rparr>,
             trace = [CallExecute (UpdateStudents (GpaMinus amt) (NameEq src)),
                      CallExecute (UpdateStudents (GpaPlus amt) (NameEq dst)),
                      CallCommit, Print TransactionSuccessful]\<rparr>)"
  using transfer_commits [of "\<lparr>conn = connect three_students, trace = []\<rparr>" src dst amt]
  by (simp add: connect_def current_def)

lemma select_after_transfer_three:
  "select_where (NameEq n)
     (conn (snd (transfer None None None src dst amt
                   \<lparr>conn = connect three_students, trace = []\<rparr>))) =
   Inr (map (\<lambda>r. if n = dst then apply_assign (GpaPlus amt) r else r)
         (map (\<lambda>r. if n = src then apply_assign (GpaMinus amt) r else r)
            (filter (\<lambda>r. name r = n) [alice_inserted, bob_inserted, carol_inserted])))"
  by (simp add: transfer_three_students select_after_updates)
     (simp add: three_students_def)

lemma update_three_students_raises_nothing:
  "fst (call_execute None (UpdateStudents a w)
          \<lparr>conn = connect three_students, trace = t\<rparr>) = None"
  by (simp add: call_execute_update connect_def current_def)

lemma next_rowid_three_students: "next_rowid three_students = 4"
  by (simp add: next_rowid_def three_students_def alice_inserted_def bob_inserted_def
      carol_inserted_def)

lemma insert_into_three_students:
  assumes "\<not> email_taken em three_students"
  shows "execute None (InsertStudent (Some n) (Some em) (Some 23) g) (connect three_students) =
     (None, \<lparr>committed = three_students,
             pending = Some (three_students\<lparr>students_rows := students_rows three_students @
                 [\<lparr>rowid = 4, name = n, email = Some em, age = Some 23,
                   gpa = bind_float g, enrolled = Some 1\<rparr>],
               students_seq := 4\<rparr>)\<rparr>)"
  using assms execute_insert_eval [of "connect three_students" 23 em n g]
  by (simp add: connect_def current_def next_rowid_three_students int64_ok_def)

lemma emails_not_taken:
  "\<not> email_taken ''david@email.com'' three_students"
  "\<not> email_taken ''nan@email.com'' three_students"
  by (simp_all add: email_taken_def three_students_def alice_inserted_def bob_inserted_def
      carol_inserted_def)

section \<open>The script up to the transfer\<close>

lemma helpsheet_setup:
  "fst (run_calls helpsheet_sections_2_to_7 \<lparr>conn = connect d0, trace = t0\<rparr>) = None \<and>
   conn (snd (run_calls helpsheet_sections_2_to_7 \<lparr>conn = connect d0, trace = t0\<rparr>)) =
     \<lparr>committed =
        \<lparr>catalog = filter (\<lambda>t. fst t \<noteq> ''students'') (catalog d0) @
                     [(''students'', students_body)],
         students_rows =
     [\<lparr>rowid = 1, name = ''Alice Johnson'', email = Some ''alice@email.com'', age = Some 20,
        gpa = Some (lit (38 / 10)), enrolled = Some 1\<rparr>,
      \<lparr>rowid = 2, name = ''Bob Smith'', email = Some ''bob@email.com'', age = Some 22,
        gpa = Some (lit (39 / 10)), enrolled = Some 1\<rparr>,
      \<lparr>rowid = 3, name = ''Carol White'', email = Some ''carol@email.com'', age = Some 21,
        gpa = Some (lit (39 / 10)), enrolled = Some 1\<rparr>,
      \<lparr>rowid = 4, name = ''David Brown'', email = Some ''david@email.com'', age = Some 23,
        gpa = Some (Finite (7430939385161319 / 2251799813685248)), enrolled = Some 1\<rparr>,
      \<lparr>rowid = 5, name = ''Eve Davis'', email = Some ''eve@email.com'', age = Some 20,
        gpa = Some (lit (37 / 10)), enrolled = Some 1\<rparr>,
      \<lparr>rowid = 6, name = ''Frank Miller'', email = Some ''frank@email.com'', age = Some 22,
        gpa = Some (lit (36 / 10)), enrolled = Some 1\<rparr>],
         students_seq = 7\<rparr>,
      pending = None\<rparr>"
  unfolding helpsheet_sections_2_to_7_def students_list_def lits
  by (simp add: students_body_def store_defs not_in_filtered_names round_david)

lemma select_name_gpa_eval:
  "table_exists ''students'' d \<Longrightarrow>
   select_name_gpa ns \<lparr>committed = d, pending = None\<rparr> =
     Inr (map (\<lambda>r. (name r, gpa r)) (filter (\<lambda>r. name r \<in> set ns) (students_rows d)))"
  by (simp add: select_name_gpa_def select_where_def current_def cong: filter_cong)

lemma helpsheet_run_values:
  "fst (run_calls helpsheet_sections_2_to_7 \<lparr>conn = connect d0, trace = t0\<rparr>) = None \<and>
   select_name_gpa [''Alice Johnson'', ''Bob Smith'']
     (conn (snd (run_calls helpsheet_sections_2_to_7 \<lparr>conn = connect d0, trace = t0\<rparr>)))
     = Inr [(''Alice Johnson'', Some (lit (38 / 10))), (''Bob Smith'', Some (lit (39 / 10)))] \<and>
   fst (helpsheet_transfer None None None
          (snd (run_calls helpsheet_sections_2_to_7 \<lparr>conn = connect d0, trace = t0\<rparr>))) = None \<and>
   select_name_gpa [''Alice Johnson'', ''Bob Smith'']
     (conn (snd (helpsheet_transfer None None None
          (snd (run_calls helpsheet_sections_2_to_7 \<lparr>conn = connect d0, trace = t0\<rparr>)))))
     = Inr [(''Alice Johnson'', Some (Finite (2026619832316723 / 562949953421312))),
            (''Bob Smith'', Some (lit (41 / 10)))]"
proof -
  let ?p = "snd (run_calls helpsheet_sections_2_to_7 \<lparr>conn = connect d0, trace = t0\<rparr>)"
  note hs = helpsheet_setup [of d0 t0]
  have ex: "table_exists ''students'' (current (conn ?p))"
    by (simp add: hs current_def table_exists_def)
  have before: "select_name_gpa [''Alice Johnson'', ''Bob Smith''] (conn ?p)
     = Inr [(''Alice Johnson'', Some (lit (38 / 10))), (''Bob Smith'', Some (lit (39 / 10)))]"
    by (simp add: hs select_name_gpa_eval table_exists_def)
  let ?u1 = "UpdateStudents (GpaMinus (lit (2 / 10))) (NameEq ''Alice Johnson'')"
  let ?u2 = "UpdateStudents (GpaPlus (lit (2 / 10))) (NameEq ''Bob Smith'')"
  have t: "helpsheet_transfer None None None ?p =
     (None,
      \<lparr>conn = \<lparr>committed =
                  update_rows (GpaPlus (lit (2 / 10))) (NameEq ''Bob Smith'')
                    (update_rows (GpaMinus (lit (2 / 10))) (NameEq ''Alice Johnson'')
                       (current (conn ?p))),
                pending = None\<rparr>,
       trace = trace ?p @ [CallExecute ?u1, CallExecute ?u2, CallCommit,
                           Print TransactionSuccessful]\<rparr>)"
    unfolding helpsheet_transfer_def by (rule transfer_commits [OF ex])
  have after: "select_name_gpa [''Alice Johnson'', ''Bob Smith'']
                 (conn (snd (helpsheet_transfer None None None ?p)))
     = Inr [(''Alice Johnson'', Some (Finite (2026619832316723 / 562949953421312))),
            (''Bob Smith'', Some (lit (41 / 10)))]"
    unfolding t
    by (simp add: hs select_name_gpa_eval table_exists_def current_def update_rows_def
        sub_38_02 [simplified] add_39_02 [simplified])
  show ?thesis
    using hs before t after by simp
qed

section \<open>Atomicity of the transfer\<close>

text \<open>
  C1. Whatever the store answers on the two UPDATE statements and on the commit, and
  whatever state the connection is in, the transfer ends with no transaction open, and
  the file then holds one of two things: when all three calls succeed, what the connection
  saw before with both UPDATE statements applied (and the script prints that the
  transaction was successful); otherwise exactly what the file held before (and the script
  prints that all changes were rolled back).
\<close>

theorem transfer_all_or_nothing:
  "\<exists>p'. transfer f1 f2 f3 src dst amt p = (None, p') \<and>
     pending (conn p') = None \<and>
     (if table_exists ''students'' (current (conn p)) \<and> f1 = None \<and> f2 = None \<and> f3 = None
      then committed (conn p') =
             update_rows (GpaPlus amt) (NameEq dst)
               (update_rows (GpaMinus amt) (NameEq src) (current (conn p))) \<and>
           last (trace p') = Print TransactionSuccessful
      else committed (conn p') = committed (conn p) \<and>
           last (trace p') = Print AllChangesRolledBack)"
proof (cases "table_exists ''students'' (current (conn p)) \<and> f1 = None \<and> f2 = None \<and> f3 = None")
  case True
  then show ?thesis
    using transfer_commits [of p src dst amt] by simp
next
  case False
  from transfer_rolls_back [OF False, of src dst amt]
  obtain e evs where
    "transfer f1 f2 f3 src dst amt p =
       (None, \<lparr>conn = \<lparr>committed = committed (conn p), pending = None\<rparr>,
               trace = trace p @ evs @ [CallRollback, Print (TransactionFailed e),
                                        Print AllChangesRolledBack]\<rparr>)"
    by blast
  with False show ?thesis by simp
qed

theorem transfer_all_or_nothing_witness:
  "\<exists>p'. transfer None (Some (OperationalError ''disk I/O error'')) None
          ''Alice Johnson'' ''Bob Smith'' (lit (2 / 10))
          \<lparr>conn = connect three_students, trace = []\<rparr> = (None, p') \<and>
     pending (conn p') = None \<and>
     committed (conn p') = three_students \<and>
     last (trace p') = Print AllChangesRolledBack"
  using transfer_all_or_nothing [of None "Some (OperationalError ''disk I/O error'')" None
      "''Alice Johnson''" "''Bob Smith''" "lit (2 / 10)"
      "\<lparr>conn = connect three_students, trace = []\<rparr>"]
  by (simp add: connect_def)

section \<open>A store error in the transfer\<close>

text \<open>
  C2, as the code has it. When either UPDATE raises, what it raises is a store error; the
  handler then calls rollback, prints the error and prints that all changes were rolled
  back, in this order, and the \<^verbatim>\<open>try\<close> statement ends normally: no exception
  reaches the caller. After it no transaction is open and the file holds what it held
  before.
\<close>

theorem transfer_error_printed_not_raised:
  assumes "call_execute f1 (UpdateStudents (GpaMinus amt) (NameEq src)) p = (Some x, q) \<or>
           (call_execute f1 (UpdateStudents (GpaMinus amt) (NameEq src)) p = (None, p1) \<and>
            call_execute f2 (UpdateStudents (GpaPlus amt) (NameEq dst)) p1 = (Some x, q))"
  shows "\<exists>e. x = Sqlite3Error e \<and>
           transfer f1 f2 f3 src dst amt p =
             (None, \<lparr>conn = rollback (conn q),
                     trace = trace q @ [CallRollback, Print (TransactionFailed e),
                                        Print AllChangesRolledBack]\<rparr>) \<and>
           rollback (conn q) = \<lparr>committed = committed (conn p), pending = None\<rparr>"
  using assms
  by (auto simp: transfer_def transfer_try_def transfer_except_def call_rollback_def
      py_print_def rollback_def call_execute_update current_def
      split: option.splits if_splits)

theorem transfer_error_printed_not_raised_witness:
  "call_execute None (UpdateStudents (GpaMinus (lit (2 / 10))) (NameEq ''Alice Johnson''))
     \<lparr>conn = connect three_students, trace = []\<rparr>
   = (None,
      \<lparr>conn = \<lparr>committed = three_students,
                pending = Some (update_rows (GpaMinus (lit (2 / 10))) (NameEq ''Alice Johnson'')
                                  three_students)\<rparr>,
       trace = [CallExecute (UpdateStudents (GpaMinus (lit (2 / 10))) (NameEq ''Alice Johnson''))]\<rparr>)
   \<and> transfer None (Some (OperationalError ''disk I/O error'')) None
         ''Alice Johnson'' ''Bob Smith'' (lit (2 / 10))
         \<lparr>conn = connect three_students, trace = []\<rparr>
     = (None,
        \<lparr>conn = \<lparr>committed = three_students, pending = None\<rparr>,
         trace = [CallExecute (UpdateStudents (GpaMinus (lit (2 / 10))) (NameEq ''Alice Johnson'')),
                  CallExecute (UpdateStudents (GpaPlus (lit (2 / 10))) (NameEq ''Bob Smith'')),
                  CallRollback,
                  Print (TransactionFailed (OperationalError ''disk I/O error'')),
                  Print AllChangesRolledBack]\<rparr>)"
proof -
  let ?p = "\<lparr>conn = connect three_students, trace = []\<rparr>"
  let ?u1 = "UpdateStudents (GpaMinus (lit (2 / 10))) (NameEq ''Alice Johnson'')"
  let ?u2 = "UpdateStudents (GpaPlus (lit (2 / 10))) (NameEq ''Bob Smith'')"
  let ?e = "OperationalError ''disk I/O error''"
  let ?p1 = "\<lparr>conn = \<lparr>committed = three_students,
                pending = Some (update_rows (GpaMinus (lit (2 / 10))) (NameEq ''Alice Johnson'')
                                  three_students)\<rparr>,
       trace = [CallExecute ?u1]\<rparr>"
  let ?q = "\<lparr>conn = \<lparr>committed = three_students,
                pending = Some (update_rows (GpaMinus (lit (2 / 10))) (NameEq ''Alice Johnson'')
                                  three_students)\<rparr>,
       trace = [CallExecute ?u1, CallExecute ?u2]\<rparr>"
  have h1: "call_execute None ?u1 ?p = (None, ?p1)"
    by (simp add: call_execute_update connect_def current_def)
  have h2: "call_execute (Some ?e) ?u2 ?p1 = (Some (Sqlite3Error ?e), ?q)"
    by (simp add: call_execute_update current_def)
  from h1 h2 have h:
    "call_execute None ?u1 ?p = (Some (Sqlite3Error ?e), ?q) \<or>
     (call_execute None ?u1 ?p = (None, ?p1) \<and>
      call_execute (Some ?e) ?u2 ?p1 = (Some (Sqlite3Error ?e), ?q))"
    by blast
  from transfer_error_printed_not_raised [OF h, of None] h1
  show ?thesis by (simp add: rollback_def)
qed

text \<open>
  C2 as the specification states it fails: here the second UPDATE raises a store error,
  and no exception leaves the \<^verbatim>\<open>try\<close> statement of the script.
\<close>

theorem transfer_reraises_counterexample:
  "fst (call_execute (Some (OperationalError ''disk I/O error''))
          (UpdateStudents (GpaPlus (lit (2 / 10))) (NameEq ''Bob Smith''))
          (snd (call_execute None
                  (UpdateStudents (GpaMinus (lit (2 / 10))) (NameEq ''Alice Johnson''))
                  \<lparr>conn = connect three_students, trace = []\<rparr>)))
     = Some (Sqlite3Error (OperationalError ''disk I/O error''))
   \<and> fst (helpsheet_transfer None (Some (OperationalError ''disk I/O error'')) None
            \<lparr>conn = connect three_students, trace = []\<rparr>) = None"
  by (simp add: helpsheet_transfer_def transfer_def transfer_try_def call_execute_update
      connect_def current_def)

section \<open>What a successful transfer does to the two balances\<close>

text \<open>
  C3, as the code has it. For two different names, each of exactly one row with a balance,
  and with no failure of the store, the transfer commits and prints success; read back, the
  source's balance is the REAL difference of its old balance and the amount and the
  destination's the REAL sum of its old balance and the amount, nothing else in the two
  rows having changed. Where neither result is rounded, the REAL sum of the two balances is
  what it was. The code does not compare the balance with the amount, and the theorem
  does not need it to cover the amount.
\<close>

theorem transfer_moves_amount:
  assumes "src \<noteq> dst"
    and "select_where (NameEq src) (conn p) = Inr [rs]"
    and "select_where (NameEq dst) (conn p) = Inr [rd]"
    and "gpa rs = Some b" and "gpa rd = Some d"
  shows "\<exists>p'. transfer None None None src dst amt p = (None, p') \<and>
           last (trace p') = Print TransactionSuccessful \<and>
           select_where (NameEq src) (conn p') = Inr [rs\<lparr>gpa := real_sub b amt\<rparr>] \<and>
           select_where (NameEq dst) (conn p') = Inr [rd\<lparr>gpa := real_add d amt\<rparr>] \<and>
           (\<forall>bq dq t. b = Finite bq \<and> d = Finite dq \<and> amt = Finite t \<and>
               round64 (bq - t) = Finite (bq - t) \<and> round64 (dq + t) = Finite (dq + t) \<longrightarrow>
               (\<exists>b' d'. select_where (NameEq src) (conn p') = Inr [rs\<lparr>gpa := Some b'\<rparr>] \<and>
                        select_where (NameEq dst) (conn p') = Inr [rd\<lparr>gpa := Some d'\<rparr>] \<and>
                        real_add b' d' = real_add b d))"
proof -
  let ?d = "current (conn p)"
  from select_where_Inr [OF assms(2)] have ex: "table_exists ''students'' ?d"
    and fs: "filter (\<lambda>r. name r = src) (students_rows ?d) = [rs]"
    by (simp_all add: sql_holds_NameEq)
  from select_where_Inr [OF assms(3)]
  have fd: "filter (\<lambda>r. name r = dst) (students_rows ?d) = [rd]"
    by (simp add: sql_holds_NameEq)
  let ?c' = "\<lparr>committed = update_rows (GpaPlus amt) (NameEq dst)
                              (update_rows (GpaMinus amt) (NameEq src) ?d),
               pending = None\<rparr>"
  let ?p' = "\<lparr>conn = ?c',
              trace = trace p @ [CallExecute (UpdateStudents (GpaMinus amt) (NameEq src)),
                                 CallExecute (UpdateStudents (GpaPlus amt) (NameEq dst)),
                                 CallCommit, Print TransactionSuccessful]\<rparr>"
  have t: "transfer None None None src dst amt p = (None, ?p')"
    by (rule transfer_commits [OF ex])
  have s1: "select_where (NameEq src) ?c' = Inr [rs\<lparr>gpa := real_sub b amt\<rparr>]"
    using assms(1,4) by (simp add: select_after_updates [OF ex] fs)
  have s2: "select_where (NameEq dst) ?c' = Inr [rd\<lparr>gpa := real_add d amt\<rparr>]"
    using assms(1,5) by (simp add: select_after_updates [OF ex] fd)
  have s3: "\<exists>b' d'. select_where (NameEq src) ?c' = Inr [rs\<lparr>gpa := Some b'\<rparr>] \<and>
                    select_where (NameEq dst) ?c' = Inr [rd\<lparr>gpa := Some d'\<rparr>] \<and>
                    real_add b' d' = real_add b d"
    if "b = Finite bq" "d = Finite dq" "amt = Finite t"
       "round64 (bq - t) = Finite (bq - t)" "round64 (dq + t) = Finite (dq + t)"
    for bq dq t
  proof (intro exI conjI)
    show "select_where (NameEq src) ?c' = Inr [rs\<lparr>gpa := Some (Finite (bq - t))\<rparr>]"
      using s1 that by (simp add: real_sub_def)
    show "select_where (NameEq dst) ?c' = Inr [rd\<lparr>gpa := Some (Finite (dq + t))\<rparr>]"
      using s2 that by simp
    show "real_add (Finite (bq - t)) (Finite (dq + t)) = real_add b d"
      using that by simp
  qed
  show ?thesis
    using t s1 s2 s3 by (intro exI [of _ ?p']) auto
qed

theorem transfer_moves_amount_witness:
  "''Alice Johnson'' \<noteq> ''Bob Smith'' \<and>
   select_where (NameEq ''Alice Johnson'') (connect three_students) = Inr [alice_inserted] \<and>
   select_where (NameEq ''Bob Smith'') (connect three_students) = Inr [bob_inserted] \<and>
   gpa alice_inserted = Some (lit (38 / 10)) \<and> gpa bob_inserted = Some (lit (35 / 10)) \<and>
   (\<exists>p'. transfer None None None ''Alice Johnson'' ''Bob Smith'' (lit (2 / 10))
            \<lparr>conn = connect three_students, trace = []\<rparr> = (None, p') \<and>
         last (trace p') = Print TransactionSuccessful \<and>
         select_where (NameEq ''Alice Johnson'') (conn p') =
           Inr [alice_inserted\<lparr>gpa := real_sub (lit (38 / 10)) (lit (2 / 10))\<rparr>] \<and>
         select_where (NameEq ''Bob Smith'') (conn p') =
           Inr [bob_inserted\<lparr>gpa := real_add (lit (35 / 10)) (lit (2 / 10))\<rparr>])"
proof -
  have h0: "''Alice Johnson'' \<noteq> ''Bob Smith''" by simp
  have h1: "select_where (NameEq ''Alice Johnson'')
              (conn \<lparr>conn = connect three_students, trace = []\<rparr>) = Inr [alice_inserted]"
    by (simp add: select_three_students)
  have h2: "select_where (NameEq ''Bob Smith'')
              (conn \<lparr>conn = connect three_students, trace = []\<rparr>) = Inr [bob_inserted]"
    by (simp add: select_three_students)
  have h3: "gpa alice_inserted = Some (lit (38 / 10))" by (rule gpa_inserted)
  have h4: "gpa bob_inserted = Some (lit (35 / 10))" by (rule gpa_inserted)
  from transfer_moves_amount [OF h0 h1 h2 h3 h4, of "lit (2 / 10)"] h1 h2 h3 h4
  show ?thesis by auto
qed

text \<open>
  C3 as the specification states it fails twice. A transfer from Alice to Alice resolves
  both keys to one record and the balance 3.8 covers the amount 0.2, yet after the
  successful transfer the balance is 3.8 again, not the difference. A transfer of 0.2 from
  Bob (3.5) to Carol (3.9) leaves 3.3 and 4.1, whose sum as REAL numbers is not the sum of
  3.5 and 3.9.
\<close>

theorem transfer_moves_amount_counterexample:
  "select_where (NameEq ''Alice Johnson'') (connect three_students) = Inr [alice_inserted] \<and>
   \<not> real_less (lit (38 / 10)) (lit (2 / 10)) \<and>
   fst (transfer None None None ''Alice Johnson'' ''Alice Johnson'' (lit (2 / 10))
          \<lparr>conn = connect three_students, trace = []\<rparr>) = None \<and>
   select_where (NameEq ''Alice Johnson'')
     (conn (snd (transfer None None None ''Alice Johnson'' ''Alice Johnson'' (lit (2 / 10))
                   \<lparr>conn = connect three_students, trace = []\<rparr>))) = Inr [alice_inserted] \<and>
   gpa alice_inserted \<noteq> real_sub (lit (38 / 10)) (lit (2 / 10)) \<and>
   select_where (NameEq ''Bob Smith'') (connect three_students) = Inr [bob_inserted] \<and>
   select_where (NameEq ''Carol White'') (connect three_students) = Inr [carol_inserted] \<and>
   \<not> real_less (lit (35 / 10)) (lit (2 / 10)) \<and>
   fst (transfer None None None ''Bob Smith'' ''Carol White'' (lit (2 / 10))
          \<lparr>conn = connect three_students, trace = []\<rparr>) = None \<and>
   select_where (NameEq ''Bob Smith'')
     (conn (snd (transfer None None None ''Bob Smith'' ''Carol White'' (lit (2 / 10))
                   \<lparr>conn = connect three_students, trace = []\<rparr>)))
     = Inr [bob_inserted\<lparr>gpa := Some (lit (33 / 10))\<rparr>] \<and>
   select_where (NameEq ''Carol White'')
     (conn (snd (transfer None None None ''Bob Smith'' ''Carol White'' (lit (2 / 10))
                   \<lparr>conn = connect three_students, trace = []\<rparr>)))
     = Inr [carol_inserted\<lparr>gpa := Some (lit (41 / 10))\<rparr>] \<and>
   real_add (lit (33 / 10)) (lit (41 / 10)) \<noteq> real_add (lit (35 / 10)) (lit (39 / 10))"
  unfolding select_after_transfer_three select_three_students
    alice_inserted_def bob_inserted_def carol_inserted_def lits lit_33 lit_41
  by (simp add: transfer_three_students real_sub_def roundings)

section \<open>The transfer in the run of the script\<close>

text \<open>
  C4, as the code has it. In the run of \<^verbatim>\<open>helpsheet.py\<close> on any database file,
  sections 2 to 7 raise nothing and the SELECT before the transfer returns Alice with 3.8
  and Bob with 3.9 (section 5 has set Bob's balance to 3.9); the transfer raises nothing,
  and the SELECT after it returns Alice with 3.5999999999999996, the binary64 difference of
  3.8 and 0.2, and Bob with 4.1.
\<close>

theorem helpsheet_transfer_run:
  "fst (run_calls helpsheet_sections_2_to_7 \<lparr>conn = connect d0, trace = t0\<rparr>) = None \<and>
   select_name_gpa [''Alice Johnson'', ''Bob Smith'']
     (conn (snd (run_calls helpsheet_sections_2_to_7 \<lparr>conn = connect d0, trace = t0\<rparr>)))
     = Inr [(''Alice Johnson'', Some (lit (38 / 10))), (''Bob Smith'', Some (lit (39 / 10)))] \<and>
   fst (helpsheet_transfer None None None
          (snd (run_calls helpsheet_sections_2_to_7 \<lparr>conn = connect d0, trace = t0\<rparr>))) = None \<and>
   select_name_gpa [''Alice Johnson'', ''Bob Smith'']
     (conn (snd (helpsheet_transfer None None None
          (snd (run_calls helpsheet_sections_2_to_7 \<lparr>conn = connect d0, trace = t0\<rparr>)))))
     = Inr [(''Alice Johnson'', Some (Finite (2026619832316723 / 562949953421312))),
            (''Bob Smith'', Some (lit (41 / 10)))]"
  by (rule helpsheet_run_values)

theorem helpsheet_transfer_run_witness:
  "fst (run_calls helpsheet_sections_2_to_7 \<lparr>conn = connect empty_database, trace = []\<rparr>) = None \<and>
   select_name_gpa [''Alice Johnson'', ''Bob Smith'']
     (conn (snd (run_calls helpsheet_sections_2_to_7
                   \<lparr>conn = connect empty_database, trace = []\<rparr>)))
     = Inr [(''Alice Johnson'', Some (lit (38 / 10))), (''Bob Smith'', Some (lit (39 / 10)))] \<and>
   select_name_gpa [''Alice Johnson'', ''Bob Smith'']
     (conn (snd (helpsheet_transfer None None None
          (snd (run_calls helpsheet_sections_2_to_7
                  \<lparr>conn = connect empty_database, trace = []\<rparr>)))))
     = Inr [(''Alice Johnson'', Some (Finite (2026619832316723 / 562949953421312))),
            (''Bob Smith'', Some (lit (41 / 10)))]"
  using helpsheet_transfer_run [of empty_database "[]"] by blast

text \<open>
  C4 as the specification states it fails: in the run on an empty database file, the
  balances read before the transfer are not 3.8 and 3.5, and those read after it are not
  3.6 and 3.7.
\<close>

theorem helpsheet_transfer_run_counterexample:
  "select_name_gpa [''Alice Johnson'', ''Bob Smith'']
     (conn (snd (run_calls helpsheet_sections_2_to_7
                   \<lparr>conn = connect empty_database, trace = []\<rparr>)))
     \<noteq> Inr [(''Alice Johnson'', Some (lit (38 / 10))), (''Bob Smith'', Some (lit (35 / 10)))] \<and>
   select_name_gpa [''Alice Johnson'', ''Bob Smith'']
     (conn (snd (helpsheet_transfer None None None
          (snd (run_calls helpsheet_sections_2_to_7
                  \<lparr>conn = connect empty_database, trace = []\<rparr>)))))
     \<noteq> Inr [(''Alice Johnson'', Some (lit (36 / 10))), (''Bob Smith'', Some (lit (37 / 10)))]"
proof -
  have a: "lit (39 / 10) \<noteq> lit (35 / 10)"
    unfolding lits by simp
  have b: "Finite (2026619832316723 / 562949953421312) \<noteq> lit (36 / 10)"
    unfolding lits by simp
  from helpsheet_run_values [of empty_database "[]"] a b show ?thesis
    by simp
qed

section \<open>A destination that does not exist\<close>

text \<open>
  C5, as the code has it. When no row has the destination's name and the store does not
  fail, the second UPDATE changes no row and raises nothing: the transfer commits and
  prints success. Afterwards there is still no row of that name, and every row of the
  source's name has had the amount subtracted from its balance.
\<close>

theorem transfer_to_missing_destination:
  assumes "select_where (NameEq dst) (conn p) = Inr []"
  shows "\<exists>p'. transfer None None None src dst amt p = (None, p') \<and>
           last (trace p') = Print TransactionSuccessful \<and>
           pending (conn p') = None \<and>
           select_where (NameEq dst) (conn p') = Inr [] \<and>
           (\<forall>rs. select_where (NameEq src) (conn p) = Inr rs \<longrightarrow>
                 select_where (NameEq src) (conn p') =
                   Inr (map (apply_assign (GpaMinus amt)) rs))"
proof -
  let ?d = "current (conn p)"
  from select_where_Inr [OF assms] have ex: "table_exists ''students'' ?d"
    and fd: "filter (\<lambda>r. name r = dst) (students_rows ?d) = []"
    by (simp_all add: sql_holds_NameEq)
  let ?c' = "\<lparr>committed = update_rows (GpaPlus amt) (NameEq dst)
                              (update_rows (GpaMinus amt) (NameEq src) ?d),
               pending = None\<rparr>"
  let ?p' = "\<lparr>conn = ?c',
              trace = trace p @ [CallExecute (UpdateStudents (GpaMinus amt) (NameEq src)),
                                 CallExecute (UpdateStudents (GpaPlus amt) (NameEq dst)),
                                 CallCommit, Print TransactionSuccessful]\<rparr>"
  have t: "transfer None None None src dst amt p = (None, ?p')"
    by (rule transfer_commits [OF ex])
  have s1: "select_where (NameEq dst) ?c' = Inr []"
    by (simp add: select_after_updates [OF ex] fd)
  have s2: "select_where (NameEq src) ?c' = Inr (map (apply_assign (GpaMinus amt)) rs)"
    if "select_where (NameEq src) (conn p) = Inr rs" for rs
  proof -
    from select_where_Inr [OF that]
    have fs: "filter (\<lambda>r. name r = src) (students_rows ?d) = rs"
      by (simp add: sql_holds_NameEq)
    show ?thesis
    proof (cases "src = dst")
      case True
      with fd fs have "rs = []" by simp
      with s1 True show ?thesis by simp
    next
      case False
      then show ?thesis
        by (simp add: select_after_updates [OF ex] fs)
    qed
  qed
  show ?thesis
    using t s1 s2 by (intro exI [of _ ?p']) auto
qed

theorem transfer_to_missing_destination_witness:
  "select_where (NameEq ''David Brown'') (connect three_students) = Inr [] \<and>
   (\<exists>p'. transfer None None None ''Alice Johnson'' ''David Brown'' (lit (2 / 10))
            \<lparr>conn = connect three_students, trace = []\<rparr> = (None, p') \<and>
         last (trace p') = Print TransactionSuccessful \<and>
         pending (conn p') = None \<and>
         select_where (NameEq ''David Brown'') (conn p') = Inr [] \<and>
         select_where (NameEq ''Alice Johnson'') (conn p') =
           Inr [apply_assign (GpaMinus (lit (2 / 10))) alice_inserted])"
proof -
  have h: "select_where (NameEq ''David Brown'')
             (conn \<lparr>conn = connect three_students, trace = []\<rparr>) = Inr []"
    by (simp add: select_three_students)
  have a: "select_where (NameEq ''Alice Johnson'')
             (conn \<lparr>conn = connect three_students, trace = []\<rparr>) = Inr [alice_inserted]"
    by (simp add: select_three_students)
  from transfer_to_missing_destination [OF h, of "''Alice Johnson''" "lit (2 / 10)"] a h
  show ?thesis by auto
qed

text \<open>
  C5 as the specification states it fails: no row of the three is named David Brown, yet
  the transfer from Alice to David Brown raises nothing and prints success, and Alice's
  balance, 3.8 before the call, is 3.5999999999999996 after it.
\<close>

theorem transfer_to_missing_destination_counterexample:
  "select_where (NameEq ''David Brown'') (connect three_students) = Inr [] \<and>
   select_where (NameEq ''Alice Johnson'') (connect three_students) = Inr [alice_inserted] \<and>
   gpa alice_inserted = Some (lit (38 / 10)) \<and>
   fst (transfer None None None ''Alice Johnson'' ''David Brown'' (lit (2 / 10))
          \<lparr>conn = connect three_students, trace = []\<rparr>) = None \<and>
   last (trace (snd (transfer None None None ''Alice Johnson'' ''David Brown'' (lit (2 / 10))
          \<lparr>conn = connect three_students, trace = []\<rparr>))) = Print TransactionSuccessful \<and>
   select_where (NameEq ''Alice Johnson'')
     (conn (snd (transfer None None None ''Alice Johnson'' ''David Brown'' (lit (2 / 10))
                   \<lparr>conn = connect three_students, trace = []\<rparr>)))
     = Inr [alice_inserted\<lparr>gpa := Some (Finite (2026619832316723 / 562949953421312))\<rparr>] \<and>
   Finite (2026619832316723 / 562949953421312) \<noteq> lit (38 / 10)"
  unfolding select_after_transfer_three select_three_students
    alice_inserted_def bob_inserted_def carol_inserted_def lits
  by (simp add: transfer_three_students real_sub_def roundings)

section \<open>A source that does not exist\<close>

text \<open>
  C6, as the code has it. When no row has the source's name and the store does not fail,
  the first UPDATE changes no row and raises nothing: the transfer commits and prints
  success. Afterwards there is still no row of the source's name, and every row of the
  destination's name has had the amount added to its balance.
\<close>

theorem transfer_from_missing_source:
  assumes "select_where (NameEq src) (conn p) = Inr []"
  shows "\<exists>p'. transfer None None None src dst amt p = (None, p') \<and>
           last (trace p') = Print TransactionSuccessful \<and>
           pending (conn p') = None \<and>
           select_where (NameEq src) (conn p') = Inr [] \<and>
           (\<forall>rd. select_where (NameEq dst) (conn p) = Inr rd \<longrightarrow>
                 select_where (NameEq dst) (conn p') =
                   Inr (map (apply_assign (GpaPlus amt)) rd))"
proof -
  let ?d = "current (conn p)"
  from select_where_Inr [OF assms] have ex: "table_exists ''students'' ?d"
    and fs: "filter (\<lambda>r. name r = src) (students_rows ?d) = []"
    by (simp_all add: sql_holds_NameEq)
  let ?c' = "\<lparr>committed = update_rows (GpaPlus amt) (NameEq dst)
                              (update_rows (GpaMinus amt) (NameEq src) ?d),
               pending = None\<rparr>"
  let ?p' = "\<lparr>conn = ?c',
              trace = trace p @ [CallExecute (UpdateStudents (GpaMinus amt) (NameEq src)),
                                 CallExecute (UpdateStudents (GpaPlus amt) (NameEq dst)),
                                 CallCommit, Print TransactionSuccessful]\<rparr>"
  have t: "transfer None None None src dst amt p = (None, ?p')"
    by (rule transfer_commits [OF ex])
  have s1: "select_where (NameEq src) ?c' = Inr []"
    by (simp add: select_after_updates [OF ex] fs)
  have s2: "select_where (NameEq dst) ?c' = Inr (map (apply_assign (GpaPlus amt)) rd)"
    if "select_where (NameEq dst) (conn p) = Inr rd" for rd
  proof -
    from select_where_Inr [OF that]
    have fd: "filter (\<lambda>r. name r = dst) (students_rows ?d) = rd"
      by (simp add: sql_holds_NameEq)
    show ?thesis
    proof (cases "src = dst")
      case True
      with fd fs have "rd = []" by simp
      with s1 True show ?thesis by simp
    next
      case False
      then show ?thesis
        by (simp add: select_after_updates [OF ex] fd)
    qed
  qed
  show ?thesis
    using t s1 s2 by (intro exI [of _ ?p']) auto
qed

theorem transfer_from_missing_source_witness:
  "select_where (NameEq ''Zed'') (connect three_students) = Inr [] \<and>
   (\<exists>p'. transfer None None None ''Zed'' ''Bob Smith'' (lit (2 / 10))
            \<lparr>conn = connect three_students, trace = []\<rparr> = (None, p') \<and>
         last (trace p') = Print TransactionSuccessful \<and>
         pending (conn p') = None \<and>
         select_where (NameEq ''Zed'') (conn p') = Inr [] \<and>
         select_where (NameEq ''Bob Smith'') (conn p') =
           Inr [apply_assign (GpaPlus (lit (2 / 10))) bob_inserted])"
proof -
  have h: "select_where (NameEq ''Zed'')
             (conn \<lparr>conn = connect three_students, trace = []\<rparr>) = Inr []"
    by (simp add: select_three_students)
  have b: "select_where (NameEq ''Bob Smith'')
             (conn \<lparr>conn = connect three_students, trace = []\<rparr>) = Inr [bob_inserted]"
    by (simp add: select_three_students)
  from transfer_from_missing_source [OF h, of "''Bob Smith''" "lit (2 / 10)"] b h
  show ?thesis by auto
qed

text \<open>
  C6 as the specification states it fails: no row of the three is named Zed, yet the first
  UPDATE of the transfer from Zed to Bob raises nothing, the transfer raises nothing and
  prints success, and Bob's balance, 3.5 before the call, is 3.7 after it.
\<close>

theorem transfer_from_missing_source_counterexample:
  "select_where (NameEq ''Zed'') (connect three_students) = Inr [] \<and>
   select_where (NameEq ''Bob Smith'') (connect three_students) = Inr [bob_inserted] \<and>
   gpa bob_inserted = Some (lit (35 / 10)) \<and>
   fst (call_execute None (UpdateStudents (GpaMinus (lit (2 / 10))) (NameEq ''Zed''))
          \<lparr>conn = connect three_students, trace = []\<rparr>) = None \<and>
   fst (transfer None None None ''Zed'' ''Bob Smith'' (lit (2 / 10))
          \<lparr>conn = connect three_students, trace = []\<rparr>) = None \<and>
   last (trace (snd (transfer None None None ''Zed'' ''Bob Smith'' (lit (2 / 10))
          \<lparr>conn = connect three_students, trace = []\<rparr>))) = Print TransactionSuccessful \<and>
   select_where (NameEq ''Bob Smith'')
     (conn (snd (transfer None None None ''Zed'' ''Bob Smith'' (lit (2 / 10))
                   \<lparr>conn = connect three_students, trace = []\<rparr>)))
     = Inr [bob_inserted\<lparr>gpa := Some (lit (37 / 10))\<rparr>] \<and>
   lit (37 / 10) \<noteq> lit (35 / 10)"
  unfolding select_after_transfer_three select_three_students
    alice_inserted_def bob_inserted_def carol_inserted_def lits
  by (simp add: transfer_three_students update_three_students_raises_nothing
      real_sub_def roundings)

section \<open>Insert and read back\<close>

text \<open>
  C7, as the code has it. The values bound to an INSERT are of the types the script binds:
  a text for the name, a text or NULL for the email, an integer or NULL for the age, a
  float or NULL for the gpa. When an INSERT into \<^verbatim>\<open>students\<close> succeeds, the row
  has a name, and the id it was given (what \<^verbatim>\<open>cursor.lastrowid\<close> then returns) is
  one that no earlier row has: reading the table by that id on the same connection returns
  exactly one row, with the name, email and age that were bound, the gpa as
  \<open>bind_float\<close> stores it and the default 1 for \<^verbatim>\<open>enrolled\<close>; reading by the
  name returns the rows that already had this name and then the inserted one. Unless the
  gpa bound is a NaN, the four values Python receives from that row are exactly the four
  values that were bound.
\<close>

theorem insert_then_select:
  assumes "execute f (InsertStudent no e a g) c = (None, c')"
  shows "\<exists>n. no = Some n \<and>
           select_where (RowidEq (next_rowid (current c))) c' =
             Inr [\<lparr>rowid = next_rowid (current c), name = n, email = e, age = a,
                   gpa = bind_float g, enrolled = Some 1\<rparr>] \<and>
           select_where (NameEq n) c' =
             Inr (filter (\<lambda>r. name r = n) (students_rows (current c)) @
                  [\<lparr>rowid = next_rowid (current c), name = n, email = e, age = a,
                    gpa = bind_float g, enrolled = Some 1\<rparr>]) \<and>
           (g \<noteq> Some NaN \<longrightarrow>
              fetched_values \<lparr>rowid = next_rowid (current c), name = n, email = e, age = a,
                               gpa = bind_float g, enrolled = Some 1\<rparr> = (no, e, a, g))"
proof -
  from execute_insert_ok [OF assms] obtain n where n: "no = Some n"
    and ex: "table_exists ''students'' (current c)"
    and c': "c' = \<lparr>committed = committed c,
                 pending = Some ((current c)\<lparr>students_rows := students_rows (current c) @
                     [\<lparr>rowid = next_rowid (current c), name = n, email = e, age = a,
                       gpa = bind_float g, enrolled = Some 1\<rparr>],
                   students_seq := next_rowid (current c)\<rparr>)\<rparr>"
    by blast
  have "select_where (RowidEq (next_rowid (current c))) c' =
             Inr [\<lparr>rowid = next_rowid (current c), name = n, email = e, age = a,
                   gpa = bind_float g, enrolled = Some 1\<rparr>]"
    using ex unfolding c'
    by (simp add: select_where_def current_def table_exists_def sql_holds_RowidEq
        no_row_with_next_rowid [unfolded current_def])
  moreover have "select_where (NameEq n) c' =
             Inr (filter (\<lambda>r. name r = n) (students_rows (current c)) @
                  [\<lparr>rowid = next_rowid (current c), name = n, email = e, age = a,
                    gpa = bind_float g, enrolled = Some 1\<rparr>])"
    using ex unfolding c'
    by (simp add: select_where_def current_def table_exists_def sql_holds_NameEq)
  moreover have "fetched_values \<lparr>rowid = next_rowid (current c), name = n, email = e, age = a,
                               gpa = bind_float g, enrolled = Some 1\<rparr> = (no, e, a, g)"
    if "g \<noteq> Some NaN"
  proof (cases g)
    case None
    then show ?thesis by (simp add: fetched_values_def fetch_float_def n)
  next
    case (Some x)
    with that show ?thesis
      by (cases x) (simp_all add: fetched_values_def fetch_float_def n)
  qed
  ultimately show ?thesis using n by blast
qed

theorem insert_then_select_witness:
  "execute None (InsertStudent (Some ''David Brown'') (Some ''david@email.com'') (Some 23)
                   (Some (Float (lit (32 / 10))))) (connect three_students)
     = (None, \<lparr>committed = three_students,
               pending = Some (three_students\<lparr>students_rows := students_rows three_students @
                   [\<lparr>rowid = 4, name = ''David Brown'', email = Some ''david@email.com'',
                     age = Some 23, gpa = Some (lit (32 / 10)), enrolled = Some 1\<rparr>],
                 students_seq := 4\<rparr>)\<rparr>) \<and>
   select_where (RowidEq 4)
     \<lparr>committed = three_students,
      pending = Some (three_students\<lparr>students_rows := students_rows three_students @
          [\<lparr>rowid = 4, name = ''David Brown'', email = Some ''david@email.com'',
            age = Some 23, gpa = Some (lit (32 / 10)), enrolled = Some 1\<rparr>],
        students_seq := 4\<rparr>)\<rparr>
     = Inr [\<lparr>rowid = 4, name = ''David Brown'', email = Some ''david@email.com'',
             age = Some 23, gpa = Some (lit (32 / 10)), enrolled = Some 1\<rparr>] \<and>
   fetched_values \<lparr>rowid = 4, name = ''David Brown'', email = Some ''david@email.com'',
                    age = Some 23, gpa = Some (lit (32 / 10)), enrolled = Some 1\<rparr>
     = (Some ''David Brown'', Some ''david@email.com'', Some 23, Some (Float (lit (32 / 10))))"
proof -
  have h: "execute None (InsertStudent (Some ''David Brown'') (Some ''david@email.com'') (Some 23)
                   (Some (Float (lit (32 / 10))))) (connect three_students)
     = (None, \<lparr>committed = three_students,
               pending = Some (three_students\<lparr>students_rows := students_rows three_students @
                   [\<lparr>rowid = 4, name = ''David Brown'', email = Some ''david@email.com'',
                     age = Some 23, gpa = Some (lit (32 / 10)), enrolled = Some 1\<rparr>],
                 students_seq := 4\<rparr>)\<rparr>)"
    using insert_into_three_students [OF emails_not_taken(1), of "''David Brown''"
        "Some (Float (lit (32 / 10)))"]
    by simp
  from insert_then_select [OF h] h show ?thesis
    by (simp add: connect_def current_def next_rowid_three_students)
qed

text \<open>
  C7 as the specification states it fails: a record whose gpa is the float NaN is inserted
  without error, and the row read back by its id has NULL for the gpa, so that Python
  receives \<^verbatim>\<open>None\<close> where it had bound the NaN.
\<close>

theorem insert_then_select_counterexample:
  "fst (execute None (InsertStudent (Some ''Nan Student'') (Some ''nan@email.com'') (Some 23)
                        (Some NaN)) (connect three_students)) = None \<and>
   select_where (RowidEq 4)
     (snd (execute None (InsertStudent (Some ''Nan Student'') (Some ''nan@email.com'') (Some 23)
                           (Some NaN)) (connect three_students)))
     = Inr [\<lparr>rowid = 4, name = ''Nan Student'', email = Some ''nan@email.com'',
             age = Some 23, gpa = None, enrolled = Some 1\<rparr>] \<and>
   fetched_values \<lparr>rowid = 4, name = ''Nan Student'', email = Some ''nan@email.com'',
                    age = Some 23, gpa = None, enrolled = Some 1\<rparr>
     = (Some ''Nan Student'', Some ''nan@email.com'', Some 23, None) \<and>
   fetched_values \<lparr>rowid = 4, name = ''Nan Student'', email = Some ''nan@email.com'',
                    age = Some 23, gpa = None, enrolled = Some 1\<rparr>
     \<noteq> (Some ''Nan Student'', Some ''nan@email.com'', Some 23, Some NaN)"
  unfolding insert_into_three_students [OF emails_not_taken(2)]
  by (simp add: select_where_def current_def table_exists_def fetched_values_def
      fetch_float_def)
     (simp add: three_students_def alice_inserted_def bob_inserted_def carol_inserted_def)

section \<open>Commit twice\<close>

text \<open>
  C8. A commit that follows a successful commit, with no statement in between, succeeds
  whatever the store would answer and leaves the connection (the durable contents and the
  transaction state) exactly as the first commit left it.
\<close>

theorem commit_twice:
  "commit f1 c = (None, c1) \<Longrightarrow> commit f2 c1 = (None, c1)"
  by (auto simp: commit_def split: option.splits)

theorem commit_twice_witness:
  "commit None \<lparr>committed = empty_database,
       pending = Some (empty_database\<lparr>students_seq := 5\<rparr>)\<rparr>
     = (None, \<lparr>committed = empty_database\<lparr>students_seq := 5\<rparr>, pending = None\<rparr>)
   \<and> commit (Some (OperationalError ''database is locked''))
        \<lparr>committed = empty_database\<lparr>students_seq := 5\<rparr>, pending = None\<rparr>
     = (None, \<lparr>committed = empty_database\<lparr>students_seq := 5\<rparr>, pending = None\<rparr>)"
proof -
  have h: "commit None \<lparr>committed = empty_database,
       pending = Some (empty_database\<lparr>students_seq := 5\<rparr>)\<rparr>
     = (None, \<lparr>committed = empty_database\<lparr>students_seq := 5\<rparr>, pending = None\<rparr>)"
    by (simp add: commit_def)
  from commit_twice [OF h] h show ?thesis by simp
qed

section \<open>What the transfer leaves unchanged\<close>

lemma row_frame_refl: "row_frame src dst r r"
  by (simp add: row_frame_def)

lemma transfer_frame_refl: "transfer_frame src dst d d"
  by (simp add: transfer_frame_def list_all2_same row_frame_refl)

lemma row_frame_updates:
  "row_frame src dst r
     ((\<lambda>r. if sql_holds (NameEq dst) r then apply_assign (GpaPlus x) r else r)
        ((\<lambda>r. if sql_holds (NameEq src) r then apply_assign (GpaMinus y) r else r) r))"
  by (simp add: row_frame_def)

lemma transfer_frame_updates:
  "transfer_frame src dst d
     (update_rows (GpaPlus x) (NameEq dst) (update_rows (GpaMinus y) (NameEq src) d))"
proof -
  have "list_all2 (row_frame src dst) (students_rows d)
          (map (\<lambda>r. if sql_holds (NameEq dst) r then apply_assign (GpaPlus x) r else r)
             (map (\<lambda>r. if sql_holds (NameEq src) r then apply_assign (GpaMinus y) r else r)
                (students_rows d)))"
    unfolding list_all2_map2 list_all2_same using row_frame_updates by blast
  then show ?thesis
    by (simp add: transfer_frame_def update_rows_def)
qed

text \<open>
  C9, as the code has it. The transfer raises nothing. When it commits, and when it rolls
  back with no transaction open before it (as in the script, where it follows a commit),
  what the connection sees after it is what it saw before with nothing changed but the
  \<^verbatim>\<open>gpa\<close> of rows named \<open>src\<close> or \<open>dst\<close>: the same tables, the same rows in
  the same order, every other attribute and every other row as before.
\<close>

theorem transfer_changes_only_gpa:
  "\<exists>p'. transfer f1 f2 f3 src dst amt p = (None, p') \<and>
     (pending (conn p) = None \<or> last (trace p') = Print TransactionSuccessful \<longrightarrow>
        transfer_frame src dst (current (conn p)) (current (conn p')))"
proof (cases "table_exists ''students'' (current (conn p)) \<and> f1 = None \<and> f2 = None \<and> f3 = None")
  case True
  then show ?thesis
    using transfer_commits [of p src dst amt]
    by (simp add: current_def transfer_frame_updates)
next
  case False
  from transfer_rolls_back [OF False, of src dst amt]
  obtain e evs where
    t: "transfer f1 f2 f3 src dst amt p =
       (None, \<lparr>conn = \<lparr>committed = committed (conn p), pending = None\<rparr>,
               trace = trace p @ evs @ [CallRollback, Print (TransactionFailed e),
                                        Print AllChangesRolledBack]\<rparr>)"
    by blast
  show ?thesis
    unfolding t
    by (cases "pending (conn p)") (simp_all add: current_def transfer_frame_refl)
qed

theorem transfer_changes_only_gpa_witness:
  "pending (conn \<lparr>conn = connect three_students, trace = []\<rparr>) = None \<and>
   (\<exists>p'. transfer None (Some (OperationalError ''disk I/O error'')) None
            ''Alice Johnson'' ''Bob Smith'' (lit (2 / 10))
            \<lparr>conn = connect three_students, trace = []\<rparr> = (None, p') \<and>
         transfer_frame ''Alice Johnson'' ''Bob Smith'' three_students (current (conn p')))"
  using transfer_changes_only_gpa [of None "Some (OperationalError ''disk I/O error'')" None
      "''Alice Johnson''" "''Bob Smith''" "lit (2 / 10)"
      "\<lparr>conn = connect three_students, trace = []\<rparr>"]
  by (simp add: connect_def current_def)

text \<open>
  C9 as the specification states it fails. An INSERT of David Brown has opened a
  transaction on the connection, which then sees four rows. The second UPDATE of the
  transfer from Alice to Bob fails, the handler rolls back, and the connection sees three
  rows: the row of David Brown, which is neither Alice's nor Bob's, is gone.
\<close>

theorem transfer_changes_only_gpa_counterexample:
  "select_where (NameEq ''David Brown'')
     (snd (execute None (InsertStudent (Some ''David Brown'') (Some ''david@email.com'')
                           (Some 23) (Some (Float (lit (32 / 10)))))
             (connect three_students)))
     = Inr [\<lparr>rowid = 4, name = ''David Brown'', email = Some ''david@email.com'',
             age = Some 23, gpa = Some (lit (32 / 10)), enrolled = Some 1\<rparr>] \<and>
   fst (transfer None (Some (OperationalError ''disk I/O error'')) None
          ''Alice Johnson'' ''Bob Smith'' (lit (2 / 10))
          \<lparr>conn = snd (execute None (InsertStudent (Some ''David Brown'')
                                       (Some ''david@email.com'') (Some 23)
                                       (Some (Float (lit (32 / 10)))))
                         (connect three_students)),
           trace = []\<rparr>) = None \<and>
   select_where (NameEq ''David Brown'')
     (conn (snd (transfer None (Some (OperationalError ''disk I/O error'')) None
          ''Alice Johnson'' ''Bob Smith'' (lit (2 / 10))
          \<lparr>conn = snd (execute None (InsertStudent (Some ''David Brown'')
                                       (Some ''david@email.com'') (Some 23)
                                       (Some (Float (lit (32 / 10)))))
                         (connect three_students)),
           trace = []\<rparr>))) = Inr [] \<and>
   \<not> transfer_frame ''Alice Johnson'' ''Bob Smith''
       (current (snd (execute None (InsertStudent (Some ''David Brown'')
                                      (Some ''david@email.com'') (Some 23)
                                      (Some (Float (lit (32 / 10)))))
                        (connect three_students))))
       (current (conn (snd (transfer None (Some (OperationalError ''disk I/O error'')) None
          ''Alice Johnson'' ''Bob Smith'' (lit (2 / 10))
          \<lparr>conn = snd (execute None (InsertStudent (Some ''David Brown'')
                                       (Some ''david@email.com'') (Some 23)
                                       (Some (Float (lit (32 / 10)))))
                         (connect three_students)),
           trace = []\<rparr>))))"
  unfolding insert_into_three_students [OF emails_not_taken(1)]
  by (simp add: transfer_def transfer_try_def transfer_except_def call_rollback_def
      py_print_def rollback_def call_execute_update current_def select_where_def
      table_exists_def transfer_frame_def update_rows_def)
     (simp add: three_students_def alice_inserted_def bob_inserted_def carol_inserted_def)

section \<open>Running the university scripts twice\<close>

lemma professors_syntax_error:
  "syntax_error_near professors_body = Some ''PhoneNumber''"
  by (simp add: professors_body_def)

lemma colleges_departments_ok:
  "syntax_error_near colleges_body = None" "syntax_error_near departments_body = None"
  by (simp_all add: colleges_body_def departments_body_def)

lemma main_py_always_raises:
  "fst (run_script main_py d) = Some (Sqlite3Error (syntax_error ''PhoneNumber''))"
  by (simp add: run_script_def main_py_def create_if_not_exists_ok colleges_departments_ok
      create_if_not_exists_syntax_error professors_syntax_error)

lemma testtable_py_idempotent:
  "fst (run_script testtable_py d) = None \<and>
   run_script testtable_py (snd (run_script testtable_py d)) = (None, snd (run_script testtable_py d))"
  by (simp add: run_script_def testtable_py_def create_if_not_exists_ok colleges_departments_ok
      call_commit_def commit_def connect_def write_db_def current_def table_exists_def)

text \<open>
  C10 fails on \<^verbatim>\<open>main.py\<close>. Its third statement defines the table
  \<^verbatim>\<open>professors\<close> with the CHECK constraint before the columns
  \<^verbatim>\<open>PhoneNumber\<close> and \<^verbatim>\<open>OfficeLocation\<close>, which SQLite rejects. On an empty database
  file the first run creates \<^verbatim>\<open>colleges\<close> and \<^verbatim>\<open>departments\<close> and then raises
  the syntax error; the second run leaves these two tables as they are and raises the same
  error again.
\<close>

theorem main_py_second_run_raises:
  "run_script main_py empty_database =
     (Some (Sqlite3Error (syntax_error ''PhoneNumber'')),
      \<lparr>catalog = [(''colleges'', colleges_body), (''departments'', departments_body)],
       students_rows = [], students_seq = 0\<rparr>) \<and>
   run_script main_py (snd (run_script main_py empty_database)) =
     (Some (Sqlite3Error (syntax_error ''PhoneNumber'')),
      \<lparr>catalog = [(''colleges'', colleges_body), (''departments'', departments_body)],
       students_rows = [], students_seq = 0\<rparr>)"
proof -
  have 1: "run_script main_py empty_database =
     (Some (Sqlite3Error (syntax_error ''PhoneNumber'')),
      \<lparr>catalog = [(''colleges'', colleges_body), (''departments'', departments_body)],
       students_rows = [], students_seq = 0\<rparr>)"
    by (simp add: run_script_def main_py_def create_if_not_exists_ok colleges_departments_ok
        create_if_not_exists_syntax_error professors_syntax_error
        connect_def write_db_def current_def table_exists_def empty_database_def)
  have 2: "run_script main_py
      \<lparr>catalog = [(''colleges'', colleges_body), (''departments'', departments_body)],
       students_rows = [], students_seq = 0\<rparr> =
     (Some (Sqlite3Error (syntax_error ''PhoneNumber'')),
      \<lparr>catalog = [(''colleges'', colleges_body), (''departments'', departments_body)],
       students_rows = [], students_seq = 0\<rparr>)"
    by (simp add: run_script_def main_py_def create_if_not_exists_ok colleges_departments_ok
        create_if_not_exists_syntax_error professors_syntax_error
        connect_def write_db_def current_def table_exists_def)
  show ?thesis
    unfolding 1 using 1 2 by simp
qed

end
